theory Spec2Isabelle
  imports Main "HOL-Library.AList" "HOL-Library.Sublist"
begin

section \<open>Python dictionaries\<close>

text \<open>
  \<^verbatim>\<open>dict\<close>, \<^verbatim>\<open>OrderedDict\<close> and \<^verbatim>\<open>SON\<close> keep their keys in insertion order and
  hold each key once. They are association lists here: \<open>d[k] = v\<close> is \<open>AList.update k v d\<close>
  (an existing key keeps its place, a new key goes to the end), \<open>k in d\<close> is
  \<open>map_of d k \<noteq> None\<close>, and \<open>d[k]\<close> raises \<^verbatim>\<open>KeyError\<close> on a missing key.
\<close>

datatype KeyError = KeyError

definition getitem :: "('k \<times> 'a) list \<Rightarrow> 'k \<Rightarrow> KeyError + 'a" where
  "getitem d k = (case map_of d k of None \<Rightarrow> Inl KeyError | Some v \<Rightarrow> Inr v)"

section \<open>Field descriptors (aiomongodel.fields, seen through the attributes document.py reads)\<close>

text \<open>
  \<^verbatim>\<open>ValidationError(msg)\<close> and \<^verbatim>\<open>ValidationError(error=errors)\<close>, the second one holding
  the dictionary of per-field errors.
\<close>

datatype ValidationError =
    ValidationError string
  | ValidationErrors "(string \<times> ValidationError) list"

text \<open>
  Modelled from the spec: the class \<^verbatim>\<open>Field\<close> of aiomongodel.fields, a module that
  document.py imports. document.py reads \<^verbatim>\<open>name\<close>, \<^verbatim>\<open>mongo_name\<close>, \<^verbatim>\<open>required\<close> and
  \<^verbatim>\<open>default\<close>, assigns through the descriptor (validate and normalise, which may raise
  \<^verbatim>\<open>ValidationError\<close>) and calls \<^verbatim>\<open>to_son\<close> and \<^verbatim>\<open>from_son\<close>; the two wire conversions
  return a value. A name that is \<^verbatim>\<open>None\<close> or empty is the empty string. \<open>default_of\<close> is
  \<open>None\<close> for the sentinel \<^verbatim>\<open>_Empty\<close>; otherwise reading \<^verbatim>\<open>field.default\<close> runs the
  function on the state \<open>'s\<close> that default factories draw from (a static default leaves
  the state alone). \<open>'v\<close> is the type of Python values.
\<close>

record ('v, 's) field =
  name :: string
  mongo_name :: string
  required :: bool
  default_of :: "('s \<Rightarrow> 'v \<times> 's) option"
  from_data :: "'v \<Rightarrow> ValidationError + 'v"
  to_son :: "'v \<Rightarrow> 'v"
  from_son :: "'v \<Rightarrow> 'v"

text \<open>
  A \<^verbatim>\<open>SynonymField\<close> is a dictionary key by object identity; \<open>syn_id\<close> stands for the
  identity and \<open>origin_field_name\<close> for the property of that name.
\<close>

datatype SynonymField = SynonymField (syn_id: nat) (origin_field_name: string)

section \<open>Classes as the metaclass sees them\<close>

datatype ('v, 's) item =
    FieldItem "('v, 's) field"
  | SynonymItem SynonymField
  | OtherItem

text \<open>
  A class has its \<^verbatim>\<open>__name__\<close>, the entries of its \<^verbatim>\<open>__dict__\<close> in order, the
  \<^verbatim>\<open>__dict__\<close> of its inner class \<^verbatim>\<open>Meta\<close> when the class body declares one, and the
  classes that follow it in \<^verbatim>\<open>__mro__\<close>. An entry of \<^verbatim>\<open>__dict__\<close> that is neither a
  \<^verbatim>\<open>Field\<close> nor a \<^verbatim>\<open>SynonymField\<close>, the entry \<^verbatim>\<open>Meta\<close> among them, is an \<open>OtherItem\<close>. \<open>'o\<close> is the type of the values an option of
  \<^verbatim>\<open>Meta\<close> is bound to.
\<close>

datatype ('v, 's, 'o) pyclass =
  PyClass (cls_name: string)
          (cls_dict: "(string \<times> ('v, 's) item) list")
          (cls_Meta: "(string \<times> 'o) list option")
          (cls_mro_tail: "('v, 's, 'o) pyclass list")

definition mro :: "('v, 's, 'o) pyclass \<Rightarrow> ('v, 's, 'o) pyclass list" where
  "mro c = c # cls_mro_tail c"

subsection \<open>BaseDocumentMeta._get_fields\<close>

definition ignore_bases :: "string list" where
  "ignore_bases = [''object'', ''BaseDocument'', ''Document'', ''EmbeddedDocument'']"

definition mro_ns_gen :: "('v, 's, 'o) pyclass \<Rightarrow> (string \<times> ('v, 's) item) list list" where
  "mro_ns_gen new_class =
     map cls_dict (filter (\<lambda>c. cls_name c \<notin> set ignore_bases) (rev (mro new_class)))"

text \<open>
  \<^verbatim>\<open>if not item.name: item.name = name\<close>. Descriptors are values here: one descriptor
  object bound to two attribute names is two descriptors.
\<close>

definition set_name :: "string \<Rightarrow> ('v, 's) field \<Rightarrow> ('v, 's) field" where
  "set_name nm f = (if name f = [] then f\<lparr>name := nm\<rparr> else f)"

text \<open>The body of the inner loop, on the pair of dictionaries \<open>(fields, synonyms)\<close>.\<close>

fun gather_item ::
  "(string \<times> ('v, 's) field) list \<times> (SynonymField \<times> string) list \<Rightarrow>
   string \<times> ('v, 's) item \<Rightarrow>
   (string \<times> ('v, 's) field) list \<times> (SynonymField \<times> string) list" where
  "gather_item (fs, syns) (nm, FieldItem f) = (AList.update nm (set_name nm f) fs, syns)"
| "gather_item (fs, syns) (nm, SynonymItem sy) = (fs, AList.update sy nm syns)"
| "gather_item (fs, syns) (nm, OtherItem) = (fs, syns)"

definition gather_ns ::
  "(string \<times> ('v, 's) field) list \<times> (SynonymField \<times> string) list \<Rightarrow>
   (string \<times> ('v, 's) item) list \<Rightarrow>
   (string \<times> ('v, 's) field) list \<times> (SynonymField \<times> string) list" where
  "gather_ns acc ns = foldl gather_item acc ns"

definition BaseDocumentMeta_get_fields ::
  "('v, 's, 'o) pyclass \<Rightarrow> (string \<times> ('v, 's) field) list \<times> (string \<times> string) list" where
  "BaseDocumentMeta_get_fields new_class =
     (let (fs, synonyms) = foldl gather_ns ([], []) (mro_ns_gen new_class)
      in (fs, foldl (\<lambda>d (item, nm). AList.update (origin_field_name item) nm d) [] synonyms))"

text \<open>
  The field declarations that the walk meets, in the order it meets them, each with the
  name it is stored under and the descriptor as stored.
\<close>

definition ns_decls :: "(string \<times> ('v, 's) item) list \<Rightarrow> (string \<times> ('v, 's) field) list" where
  "ns_decls ns = concat (map (\<lambda>(nm, it). case it of FieldItem f \<Rightarrow> [(nm, set_name nm f)] | _ \<Rightarrow> []) ns)"

definition field_decls :: "('v, 's, 'o) pyclass \<Rightarrow> (string \<times> ('v, 's) field) list" where
  "field_decls new_class = concat (map ns_decls (mro_ns_gen new_class))"

subsection \<open>What document.py takes from other modules\<close>

text \<open>
  \<open>ObjectId\<close> is \<^verbatim>\<open>bson.ObjectId()\<close>, drawing a new identifier from the generator state;
  \<open>ObjectIdField\<close> is the descriptor \<^verbatim>\<open>ObjectIdField(...)\<close> builds, before the keyword
  arguments of the call are set on it; \<open>snake_case\<close> is \<^verbatim>\<open>aiomongodel.utils.snake_case\<close>;
  \<open>set_order\<close> is the order in which Python iterates over the set of the given
  (distinct) strings.
\<close>

record ('v, 's) lib =
  ObjectId :: "'s \<Rightarrow> 'v \<times> 's"
  ObjectIdField :: "('v, 's) field"
  snake_case :: "string \<Rightarrow> string"
  set_order :: "string list \<Rightarrow> string list"

text \<open>
  The exceptions that leave a class undefined. \<^verbatim>\<open>TypeError\<close> is what Python raises when
  a call passes a keyword argument under the name of a parameter that is bound already,
  as \<^verbatim>\<open>self\<close> is; its message depends on the version of Python and is left out.
\<close>

datatype definition_error = ValueError string | TypeError

datatype metaclass = DocumentMeta | EmbeddedDocumentMeta

subsection \<open>DocumentMeta\<close>

text \<open>
  \<^verbatim>\<open>default_id_field = ObjectIdField(name='_id', required=True, default=lambda: ObjectId())\<close>.
  Modelled from the spec: the constructor of aiomongodel.fields; the injected descriptor
  has its wire name fixed, \<^verbatim>\<open>_id\<close>.
\<close>

definition default_id_field :: "('v, 's) lib \<Rightarrow> ('v, 's) field" where
  "default_id_field l =
     (ObjectIdField l)\<lparr>name := ''_id'', mongo_name := ''_id'', required := True,
                        default_of := Some (ObjectId l)\<rparr>"

definition DocumentMeta_get_fields ::
  "('v, 's) lib \<Rightarrow> ('v, 's, 'o) pyclass \<Rightarrow>
   definition_error + (string \<times> ('v, 's) field) list \<times> (string \<times> string) list" where
  "DocumentMeta_get_fields l new_class =
     (let (fs, synonyms) = BaseDocumentMeta_get_fields new_class
      in case map_of fs ''_id'' of
           None \<Rightarrow> Inr (AList.update ''_id'' (default_id_field l) fs, synonyms)
         | Some f \<Rightarrow>
             if \<not> required f
             then Inl (ValueError
                         ([CHR 0x27] @ cls_name new_class @ ''._id' field should be required.''))
             else Inr (fs, synonyms))"

subsection \<open>Meta options\<close>

text \<open>
  The values of the options dictionary: what the class body of \<^verbatim>\<open>Meta\<close> binds a key to
  (\<open>Declared\<close>), and the values document.py itself puts there.
\<close>

datatype ('v, 's, 'o) optval =
    Declared 'o
  | PyNone
  | PyStr string
  | EmptyDict
  | MotorQuerySet
  | Fields "(string \<times> ('v, 's) field) list"
  | Synonyms "(string \<times> string) list"

definition startswith :: "string \<Rightarrow> string \<Rightarrow> bool" where
  "startswith s p = (take (length p) s = p)"

definition BaseDocumentMeta_get_meta_options ::
  "('v, 's, 'o) pyclass \<Rightarrow> (string \<times> ('v, 's, 'o) optval) list" where
  "BaseDocumentMeta_get_meta_options new_class =
     (case cls_Meta new_class of
        None \<Rightarrow> []
      | Some doc_meta \<Rightarrow>
          map (\<lambda>(key, v). (key, Declared v))
              (filter (\<lambda>(key, v). \<not> startswith key ''__'') doc_meta))"

definition DocumentMeta_get_meta_options ::
  "('v, 's) lib \<Rightarrow> ('v, 's, 'o) pyclass \<Rightarrow> (string \<times> ('v, 's, 'o) optval) list" where
  "DocumentMeta_get_meta_options l new_class =
     (let meta_options = BaseDocumentMeta_get_meta_options new_class;
          meta_options = (if map_of meta_options ''collection_name'' = None
                          then AList.update ''collection_name''
                                 (PyStr (snake_case l (cls_name new_class))) meta_options
                          else meta_options);
          meta_options = (if map_of meta_options ''query_class'' = None
                          then AList.update ''query_class'' MotorQuerySet meta_options
                          else meta_options)
      in meta_options)"

subsection \<open>Meta\<close>

definition OPTIONS :: "string list" where
  "OPTIONS = [''query_class'', ''collection_name'', ''default_query'', ''default_sort'',
              ''fields'', ''fields_synonyms'', ''indexes'', ''codec_options'',
              ''read_preference'', ''read_concern'', ''write_concern'']"

text \<open>\<^verbatim>\<open>sep.join(xs)\<close>\<close>

fun join :: "string \<Rightarrow> string list \<Rightarrow> string" where
  "join sep [] = []"
| "join sep [x] = x"
| "join sep (x # y # ys) = x @ sep @ join sep (y # ys)"

text \<open>The elements of \<^verbatim>\<open>keys - OPTIONS\<close>, in the order Python iterates over that set.\<close>

definition unrecognized :: "('v, 's) lib \<Rightarrow> (string \<times> 'a) list \<Rightarrow> string list" where
  "unrecognized l kwargs = set_order l (filter (\<lambda>k. k \<notin> set OPTIONS) (map fst kwargs))"

definition Meta_validate_options :: "('v, 's) lib \<Rightarrow> (string \<times> 'a) list \<Rightarrow> definition_error + unit" where
  "Meta_validate_options l kwargs =
     (let diff = unrecognized l kwargs
      in if diff \<noteq> []
         then Inl (ValueError (''Unrecognized Meta options: '' @ join '', '' diff @ ''.''))
         else Inr ())"

text \<open>
  The attributes \<^verbatim>\<open>Meta.__init__\<close> sets (\<open>meta_fields\<close> is the attribute \<^verbatim>\<open>fields\<close>);
  \<^verbatim>\<open>_trafaret\<close>, a cache that starts as \<^verbatim>\<open>None\<close>, is left out.
\<close>

record ('v, 's, 'o) Meta =
  query_class :: "('v, 's, 'o) optval"
  collection_name :: "('v, 's, 'o) optval"
  default_query :: "('v, 's, 'o) optval"
  "default_sort" :: "('v, 's, 'o) optval"
  meta_fields :: "('v, 's, 'o) optval"
  fields_synonyms :: "('v, 's, 'o) optval"
  indexes :: "('v, 's, 'o) optval"
  codec_options :: "('v, 's, 'o) optval"
  read_preference :: "('v, 's, 'o) optval"
  read_concern :: "('v, 's, 'o) optval"
  write_concern :: "('v, 's, 'o) optval"

text \<open>\<^verbatim>\<open>kwargs.get(key, dflt)\<close>\<close>

definition kwargs_get :: "(string \<times> 'a) list \<Rightarrow> string \<Rightarrow> 'a \<Rightarrow> 'a" where
  "kwargs_get kwargs key dflt = (case map_of kwargs key of None \<Rightarrow> dflt | Some v \<Rightarrow> v)"

text \<open>
  The call \<^verbatim>\<open>Meta(**kwargs)\<close>: a key \<^verbatim>\<open>self\<close> clashes with the first parameter of
  \<^verbatim>\<open>__init__\<close>, and Python raises \<^verbatim>\<open>TypeError\<close> before the body runs; otherwise the body
  validates the keys and sets the attributes.
\<close>

definition Meta_init ::
  "('v, 's) lib \<Rightarrow> (string \<times> ('v, 's, 'o) optval) list \<Rightarrow>
   definition_error + ('v, 's, 'o) Meta" where
  "Meta_init l kwargs =
     (if map_of kwargs ''self'' \<noteq> None then Inl TypeError
      else case Meta_validate_options l kwargs of
        Inl e \<Rightarrow> Inl e
      | Inr _ \<Rightarrow> Inr
          \<lparr>query_class = kwargs_get kwargs ''query_class'' PyNone,
           collection_name = kwargs_get kwargs ''collection_name'' PyNone,
           default_query = kwargs_get kwargs ''default_query'' EmptyDict,
           default_sort = kwargs_get kwargs ''default_sort'' PyNone,
           meta_fields = kwargs_get kwargs ''fields'' PyNone,
           fields_synonyms = kwargs_get kwargs ''fields_synonyms'' PyNone,
           indexes = kwargs_get kwargs ''indexes'' PyNone,
           codec_options = kwargs_get kwargs ''codec_options'' PyNone,
           read_preference = kwargs_get kwargs ''read_preference'' PyNone,
           read_concern = kwargs_get kwargs ''read_concern'' PyNone,
           write_concern = kwargs_get kwargs ''write_concern'' PyNone\<rparr>)"

subsection \<open>BaseDocumentMeta.__new__\<close>

text \<open>
  The two methods a metaclass overrides, as \<^verbatim>\<open>mcls._get_meta_options\<close> and
  \<^verbatim>\<open>mcls._get_fields\<close> resolve them.
\<close>

definition get_meta_options ::
  "('v, 's) lib \<Rightarrow> metaclass \<Rightarrow> ('v, 's, 'o) pyclass \<Rightarrow> (string \<times> ('v, 's, 'o) optval) list" where
  "get_meta_options l mcls new_class =
     (case mcls of
        DocumentMeta \<Rightarrow> DocumentMeta_get_meta_options l new_class
      | EmbeddedDocumentMeta \<Rightarrow> BaseDocumentMeta_get_meta_options new_class)"

definition get_fields ::
  "('v, 's) lib \<Rightarrow> metaclass \<Rightarrow> ('v, 's, 'o) pyclass \<Rightarrow>
   definition_error + (string \<times> ('v, 's) field) list \<times> (string \<times> string) list" where
  "get_fields l mcls new_class =
     (case mcls of
        DocumentMeta \<Rightarrow> DocumentMeta_get_fields l new_class
      | EmbeddedDocumentMeta \<Rightarrow> Inr (BaseDocumentMeta_get_fields new_class))"

text \<open>
  The result is the attribute \<^verbatim>\<open>meta\<close> set on the new class: \<open>None\<close> for a class named
  \<^verbatim>\<open>Document\<close> or \<^verbatim>\<open>EmbeddedDocument\<close>, which gets none. An exception raised on the way
  leaves the class undefined.
\<close>

definition BaseDocumentMeta_new ::
  "('v, 's) lib \<Rightarrow> metaclass \<Rightarrow> ('v, 's, 'o) pyclass \<Rightarrow>
   definition_error + ('v, 's, 'o) Meta option" where
  "BaseDocumentMeta_new l mcls new_class =
     (if cls_name new_class \<in> {''Document'', ''EmbeddedDocument''} then Inr None
      else
        let options = get_meta_options l mcls new_class
        in case get_fields l mcls new_class of
             Inl e \<Rightarrow> Inl e
           | Inr (fs, synonyms) \<Rightarrow>
               (case Meta_init l (AList.update ''fields_synonyms'' (Synonyms synonyms)
                                   (AList.update ''fields'' (Fields fs) options)) of
                  Inl e \<Rightarrow> Inl e
                | Inr m \<Rightarrow> Inr (Some m)))"

section \<open>BaseDocument\<close>

text \<open>
  An instance is its \<^verbatim>\<open>_data\<close>, the ordered dictionary from field names to values. The
  methods read \<^verbatim>\<open>meta.fields\<close> and \<^verbatim>\<open>meta.fields_synonyms\<close> of the instance's class;
  they are the arguments \<open>fs\<close> and \<open>synonyms\<close> below. \<^verbatim>\<open>meta.fields\<close> is an ordered
  dictionary, so \<open>fs\<close> holds each field name once: \<open>distinct (map fst fs)\<close>, which the
  properties that depend on it assume.
\<close>

type_synonym 'v document = "(string \<times> 'v) list"

subsection \<open>_get_field_value_from_data\<close>

definition BaseDocument_get_field_value_from_data ::
  "(string \<times> string) list \<Rightarrow> (string \<times> 'v) list \<Rightarrow> string \<Rightarrow> KeyError + 'v" where
  "BaseDocument_get_field_value_from_data synonyms kwargs field_name =
     (case getitem kwargs field_name of
        Inr v \<Rightarrow> Inr v
      | Inl KeyError \<Rightarrow>
          (case getitem synonyms field_name of
             Inl e \<Rightarrow> Inl e
           | Inr synonym \<Rightarrow> getitem kwargs synonym))"

subsection \<open>__init__\<close>

text \<open>
  Reading the property \<^verbatim>\<open>field.default\<close>: \<open>None\<close> is the sentinel \<^verbatim>\<open>_Empty\<close>. The values
  of type \<open>'v\<close> are the values other than that sentinel, so the input never supplies it.
\<close>

definition read_default :: "('v, 's) field \<Rightarrow> 's \<Rightarrow> 'v option \<times> 's" where
  "read_default f s =
     (case default_of f of
        None \<Rightarrow> (None, s)
      | Some g \<Rightarrow> (case g s of (v, s') \<Rightarrow> (Some v, s')))"

text \<open>
  Modelled from the spec: \<^verbatim>\<open>setattr(self, field_name, value)\<close> reaches \<^verbatim>\<open>Field.__set__\<close> of
  aiomongodel.fields. It invokes the field's validate-and-normalise operation; on success
  the normalised value is stored into the instance's field mapping under the canonical
  name, and a failure is the field's \<^verbatim>\<open>ValidationError\<close>.
\<close>

definition Field_set ::
  "('v, 's) field \<Rightarrow> string \<Rightarrow> 'v document \<Rightarrow> 'v \<Rightarrow> ValidationError + 'v document" where
  "Field_set f field_name inst v =
     (case from_data f v of
        Inl e \<Rightarrow> Inl e
      | Inr w \<Rightarrow> Inr (AList.update field_name w inst))"

text \<open>
  The body of the loop over \<^verbatim>\<open>meta.fields.items()\<close>, on the instance, the dictionary
  \<^verbatim>\<open>errors\<close> and the state of the default factories.
\<close>

fun init_field ::
  "(string \<times> string) list \<Rightarrow> (string \<times> 'v) list \<Rightarrow>
   'v document \<times> (string \<times> ValidationError) list \<times> 's \<Rightarrow>
   string \<times> ('v, 's) field \<Rightarrow>
   'v document \<times> (string \<times> ValidationError) list \<times> 's" where
  "init_field synonyms kwargs (inst, errors, s) (field_name, f) =
     (case (case BaseDocument_get_field_value_from_data synonyms kwargs field_name of
              Inr v \<Rightarrow> (Some v, s)
            | Inl KeyError \<Rightarrow> read_default f s) of
        (None, s') \<Rightarrow>
          if required f
          then (inst, AList.update field_name (ValidationError ''field is required'') errors, s')
          else (inst, errors, s')
      | (Some v, s') \<Rightarrow>
          (case Field_set f field_name inst v of
             Inr inst' \<Rightarrow> (inst', errors, s')
           | Inl e \<Rightarrow> (inst, AList.update field_name e errors, s')))"

text \<open>
  The body of \<^verbatim>\<open>__init__\<close>, once the call has bound its arguments: \<open>is_empty\<close> is the
  keyword-only argument \<^verbatim>\<open>_empty\<close>, \<open>kwargs\<close> the other keyword arguments (a call binds
  the keywords \<^verbatim>\<open>self\<close> and \<^verbatim>\<open>_empty\<close> to the parameters, see \<open>BaseDocument_from_data\<close>).
  The result is the instance or the exception raised, with the state the default
  factories have left.
\<close>

definition BaseDocument_init ::
  "(string \<times> ('v, 's) field) list \<Rightarrow> (string \<times> string) list \<Rightarrow> bool \<Rightarrow>
   (string \<times> 'v) list \<Rightarrow> 's \<Rightarrow> (ValidationError + 'v document) \<times> 's" where
  "BaseDocument_init fs synonyms is_empty kwargs s =
     (if is_empty then (Inr [], s)
      else case foldl (init_field synonyms kwargs) ([], [], s) fs of
             (inst, errors, s') \<Rightarrow>
               if errors \<noteq> [] then (Inl (ValidationErrors errors), s') else (Inr inst, s'))"

subsection \<open>_set_son, to_son, from_son\<close>

text \<open>\<^verbatim>\<open>self._data\<close> is reset first, so the instance the method is called on plays no part.\<close>

definition BaseDocument_set_son ::
  "(string \<times> ('v, 's) field) list \<Rightarrow> (string \<times> 'v) list \<Rightarrow> 'v document" where
  "BaseDocument_set_son fs son =
     foldl (\<lambda>inst (field_name, f).
              case getitem son (mongo_name f) of
                Inl KeyError \<Rightarrow> inst
              | Inr v \<Rightarrow> AList.update field_name (from_son f v) inst)
           [] fs"

definition BaseDocument_to_son ::
  "(string \<times> ('v, 's) field) list \<Rightarrow> 'v document \<Rightarrow> (string \<times> 'v) list" where
  "BaseDocument_to_son fs inst =
     foldl (\<lambda>son (field_name, f).
              case map_of inst field_name of
                None \<Rightarrow> son
              | Some v \<Rightarrow> AList.update (mongo_name f) (to_son f v) son)
           [] fs"

text \<open>\<^verbatim>\<open>cls(_empty=True)\<close> is the instance with no data, which \<^verbatim>\<open>_set_son\<close> then fills.\<close>

definition BaseDocument_from_son ::
  "(string \<times> ('v, 's) field) list \<Rightarrow> (string \<times> 'v) list \<Rightarrow> 'v document" where
  "BaseDocument_from_son fs son = BaseDocument_set_son fs son"

subsection \<open>from_data\<close>

text \<open>
  \<^verbatim>\<open>cls(**data)\<close>, with \<open>cls_nm\<close> for \<^verbatim>\<open>cls.__name__\<close>. A key \<^verbatim>\<open>self\<close> of \<open>data\<close> clashes
  with the first parameter of \<^verbatim>\<open>__init__\<close>: Python raises \<^verbatim>\<open>TypeError\<close> before the body
  runs, and \<^verbatim>\<open>from_data\<close> turns it into a \<^verbatim>\<open>ValidationError\<close>. Otherwise the call binds
  the key \<^verbatim>\<open>_empty\<close>, when there is one, to the parameter of that name, which
  \<^verbatim>\<open>__init__\<close> tests for truth (\<open>truthy\<close>); the other keys are \<^verbatim>\<open>kwargs\<close>. The keys of
  \<open>data\<close> are strings and a field raises \<^verbatim>\<open>ValidationError\<close> only, so no other
  \<^verbatim>\<open>TypeError\<close> arises.
\<close>

definition BaseDocument_from_data ::
  "('v \<Rightarrow> bool) \<Rightarrow> string \<Rightarrow> (string \<times> ('v, 's) field) list \<Rightarrow>
   (string \<times> string) list \<Rightarrow> (string \<times> 'v) list \<Rightarrow> 's \<Rightarrow>
   (ValidationError + 'v document) \<times> 's" where
  "BaseDocument_from_data truthy cls_nm fs synonyms data s =
     (if map_of data ''self'' \<noteq> None
      then (Inl (ValidationError (''value can't be converted to '' @ cls_nm)), s)
      else case map_of data ''_empty'' of
             None \<Rightarrow> BaseDocument_init fs synonyms False data s
           | Some e \<Rightarrow>
               BaseDocument_init fs synonyms (truthy e) (AList.delete ''_empty'' data) s)"

section \<open>The notions the properties are stated with\<close>

subsection \<open>Class definition\<close>

text \<open>
  The option keys a class declares: the keys of its own \<^verbatim>\<open>Meta\<close> that do not start with
  two underscores. \<open>offending_keys\<close> are those outside \<^verbatim>\<open>Meta.OPTIONS\<close>.
\<close>

definition declared_options :: "('v, 's, 'o) pyclass \<Rightarrow> string list" where
  "declared_options c =
     (case cls_Meta c of
        None \<Rightarrow> []
      | Some doc_meta \<Rightarrow> filter (\<lambda>k. \<not> startswith k ''__'') (map fst doc_meta))"

definition offending_keys :: "('v, 's, 'o) pyclass \<Rightarrow> string list" where
  "offending_keys c = filter (\<lambda>k. k \<notin> set OPTIONS) (declared_options c)"

subsection \<open>The wire codec as the specification words it\<close>

text \<open>
  The record of an instance: for each field present in the instance's value mapping, in
  schema order, the wire name with the wire representation of the value.
\<close>

definition wire_record :: "(string \<times> ('v, 's) field) list \<Rightarrow> 'v document \<Rightarrow> (string \<times> 'v) list" where
  "wire_record fs inst =
     concat (map (\<lambda>(field_name, f).
                    case map_of inst field_name of
                      None \<Rightarrow> []
                    | Some v \<Rightarrow> [(mongo_name f, to_son f v)]) fs)"

text \<open>
  The instance of a record: for each field in schema order, if the record has an entry
  under the field's wire name, the field's name with the value converted from the wire.
\<close>

definition loaded_instance :: "(string \<times> ('v, 's) field) list \<Rightarrow> (string \<times> 'v) list \<Rightarrow> 'v document" where
  "loaded_instance fs son =
     concat (map (\<lambda>(field_name, f).
                    case map_of son (mongo_name f) of
                      None \<Rightarrow> []
                    | Some v \<Rightarrow> [(field_name, from_son f v)]) fs)"

text \<open>The entries an instance holds for the fields of the schema, in schema order.\<close>

definition schema_part :: "(string \<times> ('v, 's) field) list \<Rightarrow> 'v document \<Rightarrow> 'v document" where
  "schema_part fs inst =
     concat (map (\<lambda>(field_name, f).
                    case map_of inst field_name of
                      None \<Rightarrow> []
                    | Some v \<Rightarrow> [(field_name, v)]) fs)"

subsection \<open>Validated construction as the specification words it\<close>

text \<open>
  The value the input supplies for a field: the one under the field's canonical name;
  if absent, the one under the field's registered synonym name.
\<close>

definition supplied :: "(string \<times> string) list \<Rightarrow> (string \<times> 'v) list \<Rightarrow> string \<Rightarrow> 'v option" where
  "supplied synonyms kwargs field_name =
     (case map_of kwargs field_name of
        Some v \<Rightarrow> Some v
      | None \<Rightarrow>
          (case map_of synonyms field_name of
             None \<Rightarrow> None
           | Some synonym \<Rightarrow> map_of kwargs synonym))"

text \<open>
  The required fields that have no value: not in the input under the canonical or the
  synonym name, and no default.
\<close>

definition omitted_required ::
  "(string \<times> ('v, 's) field) list \<Rightarrow> (string \<times> string) list \<Rightarrow> (string \<times> 'v) list \<Rightarrow> string list" where
  "omitted_required fs synonyms kwargs =
     map fst (filter (\<lambda>(field_name, f).
                        required f \<and> supplied synonyms kwargs field_name = None \<and>
                        default_of f = None) fs)"

subsection \<open>Identifiers that are never handed out twice\<close>



section \<open>Examples\<close>

text \<open>
  Fields over integer values that accept every value and convert to the wire and back
  unchanged. In \<open>example_lib\<close> identifiers are drawn from a counter, and the functions
  that stand for \<^verbatim>\<open>snake_case\<close> and for the iteration order of a set leave their argument
  as it is.
\<close>

definition plain_field :: "string \<Rightarrow> bool \<Rightarrow> int option \<Rightarrow> (int, nat) field" where
  "plain_field mongo req dflt =
     \<lparr>name = [], mongo_name = mongo, required = req,
      default_of = map_option (\<lambda>v s. (v, s)) dflt,
      from_data = Inr, to_son = id, from_son = id\<rparr>"

definition example_lib :: "(int, nat) lib" where
  "example_lib =
     \<lparr>ObjectId = (\<lambda>n. (int n, Suc n)), ObjectIdField = plain_field [] False None,
      snake_case = (\<lambda>s. s), set_order = (\<lambda>ks. ks)\<rparr>"

text \<open>
  \<open>Base\<close> is a class at its definition: it declares \<open>x\<close> with the default 1, \<open>y\<close>, and
  the option \<^verbatim>\<open>collection_name\<close>. \<open>Base_defined\<close> is the same class once \<^verbatim>\<open>DocumentMeta\<close>
  has defined it: its fields are named, and \<^verbatim>\<open>_id\<close> and \<^verbatim>\<open>meta\<close> have been set on it.
  \<open>Sub\<close> inherits from it, declares \<open>z\<close>, and declares \<open>x\<close> again with the default 2.
\<close>

definition roots :: "(int, nat, unit) pyclass list" where
  "roots = [PyClass ''Document'' [] None [], PyClass ''BaseDocument'' [] None [],
            PyClass ''object'' [] None []]"

definition Base :: "(int, nat, unit) pyclass" where
  "Base = PyClass ''Base''
            [(''__module__'', OtherItem),
             (''x'', FieldItem (plain_field ''x'' True (Some 1))),
             (''y'', FieldItem (plain_field ''y'' True None)),
             (''Meta'', OtherItem)]
            (Some [(''__module__'', ()), (''collection_name'', ())]) roots"



text \<open>
  \<open>Other\<close> declares an \<^verbatim>\<open>_id\<close> field that is not required and an option that does not
  exist. \<open>Address\<close> and \<open>Typo\<close> are embedded document classes; \<open>Typo\<close> declares two
  options that do not exist.
\<close>

definition Other :: "(int, nat, unit) pyclass" where
  "Other = PyClass ''Other'' [(''_id'', FieldItem (plain_field ''_id'' False None))]
             (Some [(''__module__'', ()), (''bogus'', ())]) roots"


definition Typo :: "(int, nat, unit) pyclass" where
  "Typo = PyClass ''Typo'' [(''street'', FieldItem (plain_field ''street'' True None))]
            (Some [(''__module__'', ()), (''colection_name'', ()), (''indexes'', ()),
                   (''sort'', ())])
            [PyClass ''EmbeddedDocument'' [] None [], PyClass ''BaseDocument'' [] None [],
             PyClass ''object'' [] None []]"

text \<open>
  A schema with two required fields, a field with a default and an optional field; the
  field \<open>name\<close> has the wire name \<open>n\<close> and the synonym \<open>full_name\<close>.
\<close>

definition person :: "(string \<times> (int, nat) field) list" where
  "person =
     [(''name'', (plain_field ''n'' True None)\<lparr>name := ''name''\<rparr>),
      (''email'', (plain_field ''email'' True None)\<lparr>name := ''email''\<rparr>),
      (''age'', (plain_field ''age'' False (Some 0))\<lparr>name := ''age''\<rparr>),
      (''nick'', (plain_field ''nick'' False None)\<lparr>name := ''nick''\<rparr>)]"

definition person_synonyms :: "(string \<times> string) list" where
  "person_synonyms = [(''name'', ''full_name'')]"

text \<open>A schema whose field \<open>value\<close> has the synonym \<open>val\<close>.\<close>

definition measurement :: "(string \<times> (int, nat) field) list" where
  "measurement =
     [(''value'', (plain_field ''value'' True None)\<lparr>name := ''value''\<rparr>),
      (''unit'', (plain_field ''unit'' False (Some 1))\<lparr>name := ''unit''\<rparr>)]"

definition measurement_synonyms :: "(string \<times> string) list" where
  "measurement_synonyms = [(''value'', ''val'')]"

text \<open>Two fields that share the wire name \<^verbatim>\<open>x\<close>.\<close>

definition shared_wire_name :: "(string \<times> (int, nat) field) list" where
  "shared_wire_name =
     [(''a'', (plain_field ''x'' True None)\<lparr>name := ''a''\<rparr>),
      (''b'', (plain_field ''x'' False None)\<lparr>name := ''b''\<rparr>)]"

text \<open>
  \<open>Selfish\<close> is an embedded document class whose \<^verbatim>\<open>Meta\<close> declares an attribute named
  \<^verbatim>\<open>self\<close>. \<open>Named_Document\<close> is a class that is itself named \<^verbatim>\<open>Document\<close> and declares
  an \<^verbatim>\<open>_id\<close> field that is not required.
\<close>

definition Selfish :: "(int, nat, unit) pyclass" where
  "Selfish = PyClass ''Selfish'' [(''street'', FieldItem (plain_field ''street'' True None))]
               (Some [(''__module__'', ()), (''self'', ()), (''bogus'', ())])
               [PyClass ''EmbeddedDocument'' [] None [], PyClass ''BaseDocument'' [] None [],
                PyClass ''object'' [] None []]"


text \<open>
  A schema whose field \<open>c\<close> has the default -1, which the field itself rejects, beside
  a required field \<open>b\<close> with no default.
\<close>

definition rejected_default :: "(string \<times> (int, nat) field) list" where
  "rejected_default =
     [(''b'', (plain_field ''b'' True None)\<lparr>name := ''b''\<rparr>),
      (''c'', (plain_field ''c'' False (Some (- 1)))
                \<lparr>name := ''c'',
                 from_data := (\<lambda>v. if v < 0 then Inl (ValidationError ''value is negative'')
                                    else Inr v)\<rparr>)]"

text \<open>The truth value of a Python integer.\<close>

definition int_truthy :: "int \<Rightarrow> bool" where
  "int_truthy v = (v \<noteq> 0)"

section \<open>Schema assembly\<close>

lemma fst_gather_item:
  "fst (gather_item acc x) = foldl (\<lambda>d (k, f). AList.update k f d) (fst acc) (ns_decls [x])"
  by (cases acc; cases x; cases "snd x") (auto simp: ns_decls_def)

lemma ns_decls_Cons: "ns_decls (x # ns) = ns_decls [x] @ ns_decls ns"
  by (simp add: ns_decls_def)

lemma fst_gather_ns:
  "fst (gather_ns acc ns) = foldl (\<lambda>d (k, f). AList.update k f d) (fst acc) (ns_decls ns)"
  unfolding gather_ns_def
proof (induction ns arbitrary: acc)
  case Nil
  show ?case by (simp add: ns_decls_def)
next
  case (Cons x ns)
  have "fst (foldl gather_item acc (x # ns)) =
          foldl (\<lambda>d (k, f). AList.update k f d) (fst (gather_item acc x)) (ns_decls ns)"
    using Cons.IH [of "gather_item acc x"] by simp
  also have "\<dots> = foldl (\<lambda>d (k, f). AList.update k f d) (fst acc) (ns_decls [x] @ ns_decls ns)"
    by (simp only: foldl_append fst_gather_item)
  finally show ?case
    by (simp only: ns_decls_Cons [of x ns])
qed

lemma fst_foldl_gather_ns:
  "fst (foldl gather_ns acc nss) =
     foldl (\<lambda>d (k, f). AList.update k f d) (fst acc) (concat (map ns_decls nss))"
  by (induction nss arbitrary: acc) (simp_all add: fst_gather_ns)

lemma get_fields_decls:
  "fst (BaseDocumentMeta_get_fields c) =
     foldl (\<lambda>d (k, f). AList.update k f d) [] (field_decls c)"
  using fst_foldl_gather_ns [of "([], [])" "mro_ns_gen c"]
  by (cases "foldl gather_ns ([], []) (mro_ns_gen c)")
     (simp add: BaseDocumentMeta_get_fields_def field_decls_def)

lemma foldl_update_keys:
  "map fst (foldl (\<lambda>d (k, f). AList.update k f d) acc ds) =
     rev (remdups (rev (map fst acc @ map fst ds)))" if "distinct (map fst acc)"
  using that
proof (induction ds rule: rev_induct)
  case Nil
  then show ?case by (simp add: distinct_remdups_id)
next
  case (snoc x ds)
  obtain k f where x: "x = (k, f)" by (cases x)
  let ?d = "foldl (\<lambda>d (k, f). AList.update k f d) acc ds"
  have keys: "map fst ?d = rev (remdups (rev (map fst acc @ map fst ds)))"
    using snoc by simp
  have mem: "k \<in> set (map fst ?d) \<longleftrightarrow> k \<in> set (map fst acc @ map fst ds)"
    by (auto simp: keys)
  show ?case
  proof (cases "k \<in> set (map fst acc @ map fst ds)")
    case True
    with mem show ?thesis by (simp add: x update_keys keys)
  next
    case False
    with mem show ?thesis by (simp add: x update_keys keys)
  qed
qed

lemma foldl_update_map_of:
  "map_of (foldl (\<lambda>d (k, f). AList.update k f d) acc ds) =
     map_of (rev ds @ acc)"
proof (induction ds rule: rev_induct)
  case Nil
  show ?case by simp
next
  case (snoc x ds)
  obtain k f where x: "x = (k, f)" by (cases x)
  show ?case
    by (rule ext) (simp add: x update_conv' snoc)
qed


lemma get_fields_map_of:
  "map_of (fst (BaseDocumentMeta_get_fields c)) = map_of (rev (field_decls c))"
  using foldl_update_map_of [of "[]" "field_decls c"] by (simp add: get_fields_decls)



lemma update_absent: "map_of al k = None \<Longrightarrow> AList.update k v al = al @ [(k, v)]"
  by (induction al) (auto split: if_splits)

lemma DocumentMeta_get_fields_cases:
  "DocumentMeta_get_fields l c =
     (case map_of (rev (field_decls c)) ''_id'' of
        None \<Rightarrow> Inr (fst (BaseDocumentMeta_get_fields c) @ [(''_id'', default_id_field l)],
                      snd (BaseDocumentMeta_get_fields c))
      | Some f \<Rightarrow>
          if \<not> required f
          then Inl (ValueError ([CHR 0x27] @ cls_name c @ ''._id' field should be required.''))
          else Inr (BaseDocumentMeta_get_fields c))"
proof (cases "BaseDocumentMeta_get_fields c")
  case (Pair fs syns)
  have m: "map_of fs = map_of (rev (field_decls c))"
    using get_fields_map_of [of c] Pair by simp
  show ?thesis
    by (simp add: DocumentMeta_get_fields_def Pair m [symmetric] update_absent split: option.splits)
qed





lemma field_decls_Other:
  "field_decls Other = [(''_id'', (plain_field ''_id'' False None)\<lparr>name := ''_id''\<rparr>)]"
  by (simp add: field_decls_def ns_decls_def mro_ns_gen_def mro_def ignore_bases_def
                set_name_def plain_field_def roots_def Other_def)



lemma base_options_keys: "map fst (BaseDocumentMeta_get_meta_options c) = declared_options c"
proof (cases "cls_Meta c")
  case None
  then show ?thesis
    by (simp add: BaseDocumentMeta_get_meta_options_def declared_options_def)
next
  case (Some d)
  have "map fst (map (\<lambda>(key, v). (key, Declared v)) (filter (\<lambda>(key, v). \<not> startswith key ''__'') d)) =
        filter (\<lambda>k. \<not> startswith k ''__'') (map fst d)"
    by (induction d) auto
  with Some show ?thesis
    by (simp add: BaseDocumentMeta_get_meta_options_def declared_options_def)
qed

lemma filter_update_recognized:
  "k \<in> set OPTIONS \<Longrightarrow>
   filter (\<lambda>k. k \<notin> set OPTIONS) (map fst (AList.update k v al)) =
   filter (\<lambda>k. k \<notin> set OPTIONS) (map fst al)"
  by (simp add: update_keys)

lemma options_keys:
  "filter (\<lambda>k. k \<notin> set OPTIONS) (map fst (get_meta_options l mcls c)) = offending_keys c"
proof (cases mcls)
  case DocumentMeta
  have 1: "''collection_name'' \<in> set OPTIONS" and 2: "''query_class'' \<in> set OPTIONS"
    by (simp_all add: OPTIONS_def)
  show ?thesis
    by (simp add: DocumentMeta get_meta_options_def DocumentMeta_get_meta_options_def Let_def
          filter_update_recognized [OF 1] filter_update_recognized [OF 2]
          base_options_keys offending_keys_def)
next
  case EmbeddedDocumentMeta
  then show ?thesis
    by (simp add: get_meta_options_def base_options_keys offending_keys_def)
qed

lemma unrecognized_options:
  "unrecognized l (AList.update ''fields_synonyms'' S (AList.update ''fields'' F
      (get_meta_options l mcls c))) = set_order l (offending_keys c)"
proof -
  have 1: "''fields'' \<in> set OPTIONS" and 2: "''fields_synonyms'' \<in> set OPTIONS"
    by (simp_all add: OPTIONS_def)
  show ?thesis
    by (simp only: unrecognized_def filter_update_recognized [OF 1]
          filter_update_recognized [OF 2] options_keys)
qed

lemma sublist_join: "k \<in> set ks \<Longrightarrow> sublist k (join sep ks)"
proof (induction sep ks rule: join.induct)
  case (1 sep)
  then show ?case by simp
next
  case (2 sep x)
  then show ?case by simp
next
  case (3 sep x y ys)
  show ?case
  proof (cases "k = x")
    case True
    then show ?thesis
      using sublist_appendI [of x "[]" "sep @ join sep (y # ys)"] by simp
  next
    case False
    with 3 have "sublist k (join sep (y # ys))" by simp
    then obtain p s where "join sep (y # ys) = p @ k @ s"
      unfolding sublist_def by blast
    then have "join sep (x # y # ys) = (x @ sep @ p) @ k @ s" by simp
    then show ?thesis
      unfolding sublist_def by blast
  qed
qed

lemma options_self:
  "(map_of (AList.update ''fields_synonyms'' S (AList.update ''fields'' F
      (get_meta_options l mcls c))) ''self'' \<noteq> None) = (''self'' \<in> set (declared_options c))"
proof -
  have "map_of (get_meta_options l mcls c) ''self'' =
        map_of (BaseDocumentMeta_get_meta_options c) ''self''"
    by (cases mcls)
       (simp_all add: get_meta_options_def DocumentMeta_get_meta_options_def Let_def
                      update_conv')
  moreover have "(map_of (BaseDocumentMeta_get_meta_options c) ''self'' = None) =
                 (''self'' \<notin> set (declared_options c))"
    by (simp add: map_of_eq_None_iff base_options_keys [symmetric])
  ultimately show ?thesis
    by (simp add: update_conv')
qed

text \<open>
  C8, as amended. For a class that the metaclass builds options for (any class not named
  \<^verbatim>\<open>Document\<close> or \<^verbatim>\<open>EmbeddedDocument\<close>) and whose schema assembly succeeds: if its own
  \<^verbatim>\<open>Meta\<close> declares an attribute named \<^verbatim>\<open>self\<close>, the definition of the class fails with the
  \<^verbatim>\<open>TypeError\<close> of the call \<^verbatim>\<open>Meta(**options)\<close>; if it declares no such attribute but a key
  outside \<^verbatim>\<open>Meta.OPTIONS\<close>, the definition fails with the \<^verbatim>\<open>ValueError\<close> of
  \<^verbatim>\<open>Meta._validate_options\<close>, whose message contains every such key; if it declares
  recognised keys only, the class is defined. \<^verbatim>\<open>Meta._validate_options\<close> itself accepts
  keyword arguments exactly when every key is in \<^verbatim>\<open>Meta.OPTIONS\<close>.
\<close>

theorem unrecognized_options_rejected:
  assumes "cls_name c \<notin> {''Document'', ''EmbeddedDocument''}"
      and "get_fields l mcls c = Inr (fs, syns)"
      and "\<forall>ks. set (set_order l ks) = set ks"
  shows "(''self'' \<in> set (declared_options c) \<longrightarrow>
            BaseDocumentMeta_new l mcls c = Inl TypeError) \<and>
         (''self'' \<notin> set (declared_options c) \<and> offending_keys c \<noteq> [] \<longrightarrow>
            (\<exists>msg. BaseDocumentMeta_new l mcls c =
                      Inl (ValueError (''Unrecognized Meta options: '' @ msg @ ''.'')) \<and>
                   (\<forall>k \<in> set (offending_keys c). sublist k msg))) \<and>
         (offending_keys c = [] \<longrightarrow> (\<exists>m. BaseDocumentMeta_new l mcls c = Inr (Some m))) \<and>
         (Meta_validate_options l kwargs = Inr ()) = (fst ` set kwargs \<subseteq> set OPTIONS)"
proof -
  have validate: "(Meta_validate_options l kwargs = Inr ()) = (fst ` set kwargs \<subseteq> set OPTIONS)"
  proof -
    have "(set_order l (filter (\<lambda>k. k \<notin> set OPTIONS) (map fst kwargs)) = []) =
          (filter (\<lambda>k. k \<notin> set OPTIONS) (map fst kwargs) = [])"
      using assms(3) by (metis set_empty)
    then show ?thesis
      by (auto simp: Meta_validate_options_def unrecognized_def Let_def filter_empty_conv)
  qed
  let ?diff = "set_order l (offending_keys c)"
  let ?options = "AList.update ''fields_synonyms'' (Synonyms syns)
                    (AList.update ''fields'' (Fields fs) (get_meta_options l mcls c))"
  have set_diff: "set ?diff = set (offending_keys c)"
    using assms(3) by simp
  then have empty_iff: "?diff = [] \<longleftrightarrow> offending_keys c = []"
    by (metis set_empty)
  have self_not_option: "''self'' \<notin> set OPTIONS"
    by (simp add: OPTIONS_def)
  have new: "BaseDocumentMeta_new l mcls c = map_sum id Some (Meta_init l ?options)"
    using assms(1,2)
    by (simp add: BaseDocumentMeta_new_def Let_def split: sum.splits)
  have type_error: "Meta_init l ?options = Inl TypeError"
    if "''self'' \<in> set (declared_options c)"
    using that options_self [of "Synonyms syns" "Fields fs" l mcls c]
    by (simp add: Meta_init_def)
  have value_error: "Meta_init l ?options =
      Inl (ValueError (''Unrecognized Meta options: '' @ join '', '' ?diff @ ''.''))"
    if "''self'' \<notin> set (declared_options c)" and "?diff \<noteq> []"
    using that options_self [of "Synonyms syns" "Fields fs" l mcls c]
    by (simp add: Meta_init_def Meta_validate_options_def unrecognized_options Let_def)
  have defined: "\<exists>m. Meta_init l ?options = Inr m"
    if "''self'' \<notin> set (declared_options c)" and "?diff = []"
    using that options_self [of "Synonyms syns" "Fields fs" l mcls c]
    by (simp add: Meta_init_def Meta_validate_options_def unrecognized_options Let_def)
  show ?thesis
  proof (intro conjI impI)
    assume "''self'' \<in> set (declared_options c)"
    then show "BaseDocumentMeta_new l mcls c = Inl TypeError"
      by (simp add: new type_error)
  next
    assume a: "''self'' \<notin> set (declared_options c) \<and> offending_keys c \<noteq> []"
    have "\<forall>k \<in> set (offending_keys c). sublist k (join '', '' ?diff)"
      using set_diff by (auto intro: sublist_join)
    moreover from a empty_iff have "BaseDocumentMeta_new l mcls c =
        Inl (ValueError (''Unrecognized Meta options: '' @ join '', '' ?diff @ ''.''))"
      by (simp add: new value_error)
    ultimately
    show "\<exists>msg. BaseDocumentMeta_new l mcls c =
                      Inl (ValueError (''Unrecognized Meta options: '' @ msg @ ''.'')) \<and>
                   (\<forall>k \<in> set (offending_keys c). sublist k msg)"
      by blast
  next
    assume none: "offending_keys c = []"
    with self_not_option have "''self'' \<notin> set (declared_options c)"
      by (auto simp: offending_keys_def filter_empty_conv)
    with none empty_iff defined obtain m where "Meta_init l ?options = Inr m"
      by blast
    then show "\<exists>m. BaseDocumentMeta_new l mcls c = Inr (Some m)"
      by (simp add: new)
  next
    show "(Meta_validate_options l kwargs = Inr ()) = (fst ` set kwargs \<subseteq> set OPTIONS)"
      by (rule validate)
  qed
qed

lemma get_fields_Base:
  "get_fields example_lib DocumentMeta Base =
     Inr (fst (BaseDocumentMeta_get_fields Base) @ [(''_id'', default_id_field example_lib)],
          snd (BaseDocumentMeta_get_fields Base))"
  by (simp add: get_fields_def DocumentMeta_get_fields_cases field_decls_def ns_decls_def
        mro_ns_gen_def mro_def ignore_bases_def set_name_def plain_field_def roots_def Base_def)

theorem unrecognized_options_rejected_witness:
  "offending_keys Typo = [''colection_name'', ''sort''] \<and>
   (\<exists>msg. BaseDocumentMeta_new example_lib EmbeddedDocumentMeta Typo =
             Inl (ValueError (''Unrecognized Meta options: '' @ msg @ ''.'')) \<and>
           sublist ''colection_name'' msg \<and> sublist ''sort'' msg) \<and>
   declared_options Selfish = [''self'', ''bogus''] \<and>
   BaseDocumentMeta_new example_lib EmbeddedDocumentMeta Selfish = Inl TypeError \<and>
   offending_keys Base = [] \<and>
   (\<exists>m. BaseDocumentMeta_new example_lib DocumentMeta Base = Inr (Some m))"
proof -
  have d1: "declared_options Typo = [''colection_name'', ''indexes'', ''sort'']"
    by (simp add: declared_options_def Typo_def startswith_def)
  have o1: "offending_keys Typo = [''colection_name'', ''sort'']"
    by (simp add: offending_keys_def d1 OPTIONS_def)
  have o2: "offending_keys Base = []"
    by (simp add: offending_keys_def declared_options_def Base_def startswith_def OPTIONS_def)
  have d3: "declared_options Selfish = [''self'', ''bogus'']"
    by (simp add: declared_options_def Selfish_def startswith_def)
  have n1: "cls_name Typo \<notin> {''Document'', ''EmbeddedDocument''}"
    by (simp add: Typo_def)
  have n2: "cls_name Base \<notin> {''Document'', ''EmbeddedDocument''}"
    by (simp add: Base_def)
  have n3: "cls_name Selfish \<notin> {''Document'', ''EmbeddedDocument''}"
    by (simp add: Selfish_def)
  have g1: "get_fields example_lib EmbeddedDocumentMeta Typo =
              Inr (fst (BaseDocumentMeta_get_fields Typo), snd (BaseDocumentMeta_get_fields Typo))"
    by (simp add: get_fields_def)
  have g3: "get_fields example_lib EmbeddedDocumentMeta Selfish =
              Inr (fst (BaseDocumentMeta_get_fields Selfish),
                   snd (BaseDocumentMeta_get_fields Selfish))"
    by (simp add: get_fields_def)
  have so: "\<forall>ks. set (set_order example_lib ks) = set ks"
    by (simp add: example_lib_def)
  from unrecognized_options_rejected
         [OF n1 g1 so, where kwargs = "[] :: (string \<times> unit) list"] o1 d1
  have 1: "\<exists>msg. BaseDocumentMeta_new example_lib EmbeddedDocumentMeta Typo =
             Inl (ValueError (''Unrecognized Meta options: '' @ msg @ ''.'')) \<and>
           sublist ''colection_name'' msg \<and> sublist ''sort'' msg"
    by simp
  from unrecognized_options_rejected
         [OF n2 get_fields_Base so, where kwargs = "[] :: (string \<times> unit) list"] o2
  have 2: "\<exists>m. BaseDocumentMeta_new example_lib DocumentMeta Base = Inr (Some m)"
    by simp
  from unrecognized_options_rejected
         [OF n3 g3 so, where kwargs = "[] :: (string \<times> unit) list"] d3
  have 3: "BaseDocumentMeta_new example_lib EmbeddedDocumentMeta Selfish = Inl TypeError"
    by simp
  from o1 o2 d3 1 2 3 show ?thesis by blast
qed

text \<open>
  C8 as stated fails: \<open>Other\<close> declares the unrecognised key \<^verbatim>\<open>bogus\<close> and an \<^verbatim>\<open>_id\<close> field
  that is not required. \<^verbatim>\<open>_get_fields\<close> runs before \<^verbatim>\<open>Meta\<close> is built, so the error is
  the one about \<^verbatim>\<open>_id\<close>, and it does not name the key.
\<close>

theorem unrecognized_options_counterexample:
  "offending_keys Other = [''bogus''] \<and>
   BaseDocumentMeta_new example_lib DocumentMeta Other =
     Inl (ValueError (CHR 0x27 # ''Other._id' field should be required.'')) \<and>
   \<not> sublist ''bogus'' (CHR 0x27 # ''Other._id' field should be required.'')"
proof (intro conjI)
  show "offending_keys Other = [''bogus'']"
    by (simp add: offending_keys_def declared_options_def Other_def startswith_def OPTIONS_def)
  show "BaseDocumentMeta_new example_lib DocumentMeta Other =
     Inl (ValueError (CHR 0x27 # ''Other._id' field should be required.''))"
    by (simp add: BaseDocumentMeta_new_def get_fields_def DocumentMeta_get_fields_cases
          field_decls_Other)
       (simp add: Other_def plain_field_def)
  show "\<not> sublist ''bogus'' (CHR 0x27 # ''Other._id' field should be required.'')"
    by (simp add: sublist_Cons_right prefix_Cons)
qed







section \<open>Wire codec\<close>

lemma foldl_update_fresh:
  "distinct (map fst acc @ map fst xs) \<Longrightarrow>
   foldl (\<lambda>d (k, v). AList.update k v d) acc xs = acc @ xs"
proof (induction xs arbitrary: acc)
  case Nil
  show ?case by simp
next
  case (Cons x xs)
  obtain k v where x: "x = (k, v)" by (cases x)
  from Cons.prems have "map_of acc k = None"
    by (auto simp: x map_of_eq_None_iff)
  then have u: "AList.update k v acc = acc @ [(k, v)]"
    by (rule update_absent)
  from Cons.prems have "distinct (map fst (acc @ [(k, v)]) @ map fst xs)"
    by (auto simp: x)
  from Cons.IH [OF this] show ?case
    by (simp add: x u)
qed

lemma wire_record_Nil: "wire_record [] inst = []"
  by (simp add: wire_record_def)

lemma wire_record_Cons:
  "wire_record ((k, f) # fs) inst =
     (case map_of inst k of None \<Rightarrow> [] | Some v \<Rightarrow> [(mongo_name f, to_son f v)]) @
     wire_record fs inst"
  by (simp add: wire_record_def)

lemma loaded_instance_Nil: "loaded_instance [] son = []"
  by (simp add: loaded_instance_def)

lemma loaded_instance_Cons:
  "loaded_instance ((k, f) # fs) son =
     (case map_of son (mongo_name f) of None \<Rightarrow> [] | Some v \<Rightarrow> [(k, from_son f v)]) @
     loaded_instance fs son"
  by (simp add: loaded_instance_def)

lemma to_son_foldl:
  "foldl (\<lambda>son (field_name, f).
            case map_of inst field_name of
              None \<Rightarrow> son
            | Some v \<Rightarrow> AList.update (mongo_name f) (to_son f v) son) acc fs =
   foldl (\<lambda>d (k, v). AList.update k v d) acc (wire_record fs inst)"
  by (induction fs arbitrary: acc) (auto simp: wire_record_Nil wire_record_Cons split: option.splits)

lemma set_son_foldl:
  "foldl (\<lambda>inst (field_name, f).
            case getitem son (mongo_name f) of
              Inl KeyError \<Rightarrow> inst
            | Inr v \<Rightarrow> AList.update field_name (from_son f v) inst) acc fs =
   foldl (\<lambda>d (k, v). AList.update k v d) acc (loaded_instance fs son)"
  by (induction fs arbitrary: acc)
     (auto simp: loaded_instance_Nil loaded_instance_Cons getitem_def split: option.splits)

lemma wire_record_keys:
  "key \<in> fst ` set (wire_record fs inst) \<Longrightarrow> key \<in> (\<lambda>(k, f). mongo_name f) ` set fs"
proof (induction fs)
  case Nil
  then show ?case by (simp add: wire_record_Nil)
next
  case (Cons x fs)
  obtain k f where x: "x = (k, f)" by (cases x)
  from Cons show ?case
    by (cases "map_of inst k") (auto simp: x wire_record_Cons)
qed

lemma distinct_wire_record:
  "distinct (map (\<lambda>(k, f). mongo_name f) fs) \<Longrightarrow> distinct (map fst (wire_record fs inst))"
proof (induction fs)
  case Nil
  show ?case by (simp add: wire_record_Nil)
next
  case (Cons x fs)
  obtain k f where x: "x = (k, f)" by (cases x)
  from Cons.prems have "mongo_name f \<notin> fst ` set (wire_record fs inst)"
    using wire_record_keys [of "mongo_name f" fs inst] by (auto simp: x)
  with Cons show ?case
    by (cases "map_of inst k") (auto simp: x wire_record_Cons)
qed

lemma loaded_instance_keys:
  "key \<in> fst ` set (loaded_instance fs son) \<Longrightarrow> key \<in> fst ` set fs"
proof (induction fs)
  case Nil
  then show ?case by (simp add: loaded_instance_Nil)
next
  case (Cons x fs)
  obtain k f where x: "x = (k, f)" by (cases x)
  from Cons show ?case
    by (cases "map_of son (mongo_name f)") (auto simp: x loaded_instance_Cons)
qed

lemma distinct_loaded_instance:
  "distinct (map fst fs) \<Longrightarrow> distinct (map fst (loaded_instance fs son))"
proof (induction fs)
  case Nil
  show ?case by (simp add: loaded_instance_Nil)
next
  case (Cons x fs)
  obtain k f where x: "x = (k, f)" by (cases x)
  from Cons.prems have "k \<notin> fst ` set (loaded_instance fs son)"
    using loaded_instance_keys [of k fs son] by (auto simp: x)
  with Cons show ?case
    by (cases "map_of son (mongo_name f)") (auto simp: x loaded_instance_Cons)
qed

lemma to_son_wire_record:
  "distinct (map (\<lambda>(k, f). mongo_name f) fs) \<Longrightarrow> BaseDocument_to_son fs inst = wire_record fs inst"
  using foldl_update_fresh [of "[]" "wire_record fs inst"]
  by (simp add: BaseDocument_to_son_def to_son_foldl distinct_wire_record)

lemma from_son_loaded_instance:
  "distinct (map fst fs) \<Longrightarrow> BaseDocument_from_son fs son = loaded_instance fs son"
  using foldl_update_fresh [of "[]" "loaded_instance fs son"]
  by (simp add: BaseDocument_from_son_def BaseDocument_set_son_def set_son_foldl
                distinct_loaded_instance)

lemma map_of_wire_record:
  "distinct (map (\<lambda>(k, f). mongo_name f) fs) \<Longrightarrow> (k, f) \<in> set fs \<Longrightarrow>
   map_of (wire_record fs inst) (mongo_name f) = map_option (to_son f) (map_of inst k)"
proof (induction fs)
  case Nil
  then show ?case by simp
next
  case (Cons x fs)
  obtain k' f' where x: "x = (k', f')" by (cases x)
  show ?case
  proof (cases "(k, f) = x")
    case True
    from Cons.prems(1) have "mongo_name f' \<notin> fst ` set (wire_record fs inst)"
      using wire_record_keys [of "mongo_name f'" fs inst] by (auto simp: x)
    then have "map_of (wire_record fs inst) (mongo_name f') = None"
      by (simp add: map_of_eq_None_iff)
    with True show ?thesis
      by (cases "map_of inst k'") (auto simp: x wire_record_Cons)
  next
    case False
    with Cons.prems have in_fs: "(k, f) \<in> set fs" by simp
    with Cons.prems(1) have "mongo_name f \<noteq> mongo_name f'"
      by (force simp: x)
    with Cons.IH in_fs Cons.prems(1) show ?thesis
      by (cases "map_of inst k'") (auto simp: x wire_record_Cons)
  qed
qed

text \<open>
  C7, as amended. When the wire names of the schema are pairwise distinct, \<^verbatim>\<open>to_son\<close>
  emits exactly the fields that have a value in the instance, in schema order, each under
  its wire name with its converted value; a field with no value has no entry under its
  wire name.
\<close>

theorem to_son_sparse:
  assumes "distinct (map (\<lambda>(field_name, f). mongo_name f) fs)"
  shows "BaseDocument_to_son fs inst = wire_record fs inst \<and>
         (\<forall>(field_name, f) \<in> set fs.
            map_of (BaseDocument_to_son fs inst) (mongo_name f) =
              map_option (to_son f) (map_of inst field_name))"
  using assms by (auto simp: to_son_wire_record map_of_wire_record)


theorem to_son_sparse_witness:
  "distinct (map (\<lambda>(field_name, f). mongo_name f) person) \<and>
   BaseDocument_to_son person [(''name'', 7), (''age'', 0)] = [(''n'', 7), (''age'', 0)] \<and>
   map_of (BaseDocument_to_son person [(''name'', 7), (''age'', 0)]) ''nick'' = None"
proof -
  have d: "distinct (map (\<lambda>(field_name, f). mongo_name f) person)"
    by (simp add: person_def plain_field_def)
  from to_son_sparse [OF d, of "[(''name'', 7), (''age'', 0)]"] d show ?thesis
    by (simp add: wire_record_def person_def plain_field_def)
qed

text \<open>
  C7 as stated fails when two fields share a wire name: both \<open>a\<close> and \<open>b\<close> have a value,
  and the record holds one entry, the value of \<open>b\<close>; the value of \<open>a\<close> is not emitted.
\<close>

theorem to_son_sparse_counterexample:
  "BaseDocument_to_son shared_wire_name [(''a'', 1), (''b'', 2)] = [(''x'', 2)] \<and>
   wire_record shared_wire_name [(''a'', 1), (''b'', 2)] = [(''x'', 1), (''x'', 2)]"
  by (simp add: BaseDocument_to_son_def wire_record_def shared_wire_name_def plain_field_def)

lemma loaded_instance_cong:
  "(\<And>k f. (k, f) \<in> set fs \<Longrightarrow> map_of son1 (mongo_name f) = map_of son2 (mongo_name f)) \<Longrightarrow>
   loaded_instance fs son1 = loaded_instance fs son2"
proof (induction fs)
  case Nil
  show ?case by (simp add: loaded_instance_Nil)
next
  case (Cons x fs)
  obtain k f where x: "x = (k, f)" by (cases x)
  from Cons.prems [of k f] have "map_of son1 (mongo_name f) = map_of son2 (mongo_name f)"
    by (simp add: x)
  moreover have "loaded_instance fs son1 = loaded_instance fs son2"
  proof (rule Cons.IH)
    fix k' f'
    assume "(k', f') \<in> set fs"
    then show "map_of son1 (mongo_name f') = map_of son2 (mongo_name f')"
      using Cons.prems [of k' f'] by simp
  qed
  ultimately show ?case
    by (simp add: x loaded_instance_Cons)
qed

lemma from_son_foldl:
  "BaseDocument_from_son fs son =
     foldl (\<lambda>d (k, v). AList.update k v d) [] (loaded_instance fs son)"
  by (simp add: BaseDocument_from_son_def BaseDocument_set_son_def set_son_foldl)

lemma map_of_filter_keys:
  "P k \<Longrightarrow> map_of (filter (\<lambda>(key, v). P key) al) k = map_of al k"
  by (induction al) auto

lemma loaded_instance_key_set:
  "fst ` set (loaded_instance fs son) =
     {k. \<exists>f. (k, f) \<in> set fs \<and> mongo_name f \<in> fst ` set son}"
proof (induction fs)
  case Nil
  show ?case by (simp add: loaded_instance_Nil)
next
  case (Cons x fs)
  obtain k f where x: "x = (k, f)" by (cases x)
  show ?case
  proof (cases "map_of son (mongo_name f)")
    case None
    then have "mongo_name f \<notin> fst ` set son"
      by (simp add: map_of_eq_None_iff)
    with None Cons show ?thesis
      by (auto simp: x loaded_instance_Cons)
  next
    case (Some v)
    then have "mongo_name f \<in> fst ` set son"
      by (force dest: map_of_SomeD)
    with Some Cons show ?thesis
      by (auto simp: x loaded_instance_Cons)
  qed
qed

text \<open>
  C5. The trusted load path returns an instance for every record. The entries of the
  record under a key that is no field's wire name play no part: the result is the one
  of the record without them. A field name has a value in the result exactly when the
  record has an entry under the wire name of a field of that name, so a field whose wire
  name is missing is left unset. With the field names of the schema distinct, as the keys
  of \<^verbatim>\<open>meta.fields\<close> are, the result is the instance the specification describes.
\<close>

theorem from_son_trusted:
  "BaseDocument_from_son fs son =
     BaseDocument_from_son fs
       (filter (\<lambda>(key, v). key \<in> (\<lambda>(field_name, f). mongo_name f) ` set fs) son) \<and>
   fst ` set (BaseDocument_from_son fs son) =
     {field_name. \<exists>f. (field_name, f) \<in> set fs \<and> mongo_name f \<in> fst ` set son} \<and>
   (distinct (map fst fs) \<longrightarrow> BaseDocument_from_son fs son = loaded_instance fs son)"
proof (intro conjI impI)
  let ?son' = "filter (\<lambda>(key, v). key \<in> (\<lambda>(field_name, f). mongo_name f) ` set fs) son"
  have "loaded_instance fs son = loaded_instance fs ?son'"
  proof (rule loaded_instance_cong)
    fix k f
    assume "(k, f) \<in> set fs"
    then have "mongo_name f \<in> (\<lambda>(field_name, f). mongo_name f) ` set fs"
      by force
    then show "map_of son (mongo_name f) = map_of ?son' (mongo_name f)"
      by (simp add: map_of_filter_keys
            [where P = "\<lambda>key. key \<in> (\<lambda>(field_name, f). mongo_name f) ` set fs"])
  qed
  then show "BaseDocument_from_son fs son = BaseDocument_from_son fs ?son'"
    by (simp add: from_son_foldl)
next
  have "map fst (BaseDocument_from_son fs son) =
          rev (remdups (rev (map fst (loaded_instance fs son))))"
    using foldl_update_keys [of "[]" "loaded_instance fs son"] by (simp add: from_son_foldl)
  then have "set (map fst (BaseDocument_from_son fs son)) = set (map fst (loaded_instance fs son))"
    by simp
  then have "fst ` set (BaseDocument_from_son fs son) = fst ` set (loaded_instance fs son)"
    by simp
  then show "fst ` set (BaseDocument_from_son fs son) =
     {field_name. \<exists>f. (field_name, f) \<in> set fs \<and> mongo_name f \<in> fst ` set son}"
    by (simp add: loaded_instance_key_set)
next
  assume "distinct (map fst fs)"
  then show "BaseDocument_from_son fs son = loaded_instance fs son"
    by (rule from_son_loaded_instance)
qed

theorem from_son_trusted_witness:
  "distinct (map fst person) \<and>
   BaseDocument_from_son person [(''age'', 30), (''zip'', 5), (''n'', 7)] =
     [(''name'', 7), (''age'', 30)]"
proof -
  have d: "distinct (map fst person)"
    by (simp add: person_def)
  note main = from_son_trusted [of person "[(''age'', 30), (''zip'', 5), (''n'', 7)]"]
  have "BaseDocument_from_son person [(''age'', 30), (''zip'', 5), (''n'', 7)] =
          loaded_instance person [(''age'', 30), (''zip'', 5), (''n'', 7)]"
    by (rule mp [OF main [THEN conjunct2, THEN conjunct2] d])
  with d show ?thesis
    by (simp add: loaded_instance_def person_def plain_field_def)
qed

section \<open>Validated construction\<close>

lemma get_field_value_supplied:
  "BaseDocument_get_field_value_from_data synonyms kwargs field_name =
     (case supplied synonyms kwargs field_name of None \<Rightarrow> Inl KeyError | Some v \<Rightarrow> Inr v)"
  by (simp add: BaseDocument_get_field_value_from_data_def supplied_def getitem_def
           split: option.splits KeyError.splits)

lemma init_field_unfold:
  "init_field synonyms kwargs (inst, errors, s) (k, f) =
     (case supplied synonyms kwargs k of
        Some v \<Rightarrow>
          (case from_data f v of
             Inr w \<Rightarrow> (AList.update k w inst, errors, s)
           | Inl e \<Rightarrow> (inst, AList.update k e errors, s))
      | None \<Rightarrow>
          (case default_of f of
             None \<Rightarrow>
               if required f
               then (inst, AList.update k (ValidationError ''field is required'') errors, s)
               else (inst, errors, s)
           | Some g \<Rightarrow>
               (case from_data f (fst (g s)) of
                  Inr w \<Rightarrow> (AList.update k w inst, errors, snd (g s))
                | Inl e \<Rightarrow> (inst, AList.update k e errors, snd (g s)))))"
  by (simp add: get_field_value_supplied read_default_def Field_set_def
           split: option.splits sum.splits prod.splits)

declare init_field.simps [simp del]

lemma omitted_required_Cons:
  "omitted_required ((k, f) # fs) synonyms kwargs =
     (if required f \<and> supplied synonyms kwargs k = None \<and> default_of f = None
      then k # omitted_required fs synonyms kwargs
      else omitted_required fs synonyms kwargs)"
  by (simp add: omitted_required_def)

lemma init_loop_errors:
  assumes "\<forall>(field_name, f) \<in> set fs.
             \<forall>v. supplied synonyms kwargs field_name = Some v \<longrightarrow> \<not> isl (from_data f v)"
      and "\<forall>(field_name, f) \<in> set fs.
             \<forall>g s. supplied synonyms kwargs field_name = None \<and> default_of f = Some g \<longrightarrow>
                   \<not> isl (from_data f (fst (g s)))"
  shows "fst ` set (fst (snd (foldl (init_field synonyms kwargs) (inst, errors, s) fs))) =
           fst ` set errors \<union> set (omitted_required fs synonyms kwargs)"
  using assms
proof (induction fs arbitrary: inst errors s)
  case Nil
  show ?case by (simp add: omitted_required_def)
next
  case (Cons x fs)
  obtain k f where x: "x = (k, f)" by (cases x)
  from Cons.prems have
    ok1: "\<And>v. supplied synonyms kwargs k = Some v \<Longrightarrow> \<not> isl (from_data f v)" and
    ok2: "\<And>g s. supplied synonyms kwargs k = None \<Longrightarrow> default_of f = Some g \<Longrightarrow>
                 \<not> isl (from_data f (fst (g s)))"
    by (auto simp: x)
  from Cons.prems have rest:
    "\<forall>(field_name, f) \<in> set fs.
       \<forall>v. supplied synonyms kwargs field_name = Some v \<longrightarrow> \<not> isl (from_data f v)"
    "\<forall>(field_name, f) \<in> set fs.
       \<forall>g s. supplied synonyms kwargs field_name = None \<and> default_of f = Some g \<longrightarrow>
             \<not> isl (from_data f (fst (g s)))"
    by simp_all
  note IH = Cons.IH [OF rest]
  show ?case
  proof (cases "supplied synonyms kwargs k")
    case (Some v)
    with ok1 [OF Some] obtain w where "from_data f v = Inr w"
      by (cases "from_data f v") auto
    with Some show ?thesis
      by (simp add: x init_field_unfold omitted_required_Cons IH)
  next
    case None
    show ?thesis
    proof (cases "default_of f")
      case dn: None
      with None show ?thesis
        by (auto simp: x init_field_unfold omitted_required_Cons IH dom_update)
    next
      case (Some g)
      with ok2 [OF None Some, of s] obtain w where "from_data f (fst (g s)) = Inr w"
        by (cases "from_data f (fst (g s))") auto
      with None Some show ?thesis
        by (simp add: x init_field_unfold omitted_required_Cons IH)
    qed
  qed
qed

lemma set_update_subset: "set (AList.update k v al) \<subseteq> insert (k, v) (set al)"
  by (induction al) auto

lemma init_loop_required_only:
  assumes "\<forall>(field_name, f) \<in> set fs.
             \<forall>v. supplied synonyms kwargs field_name = Some v \<longrightarrow> \<not> isl (from_data f v)"
      and "\<forall>(field_name, f) \<in> set fs.
             \<forall>g s. supplied synonyms kwargs field_name = None \<and> default_of f = Some g \<longrightarrow>
                   \<not> isl (from_data f (fst (g s)))"
  shows "snd ` set (fst (snd (foldl (init_field synonyms kwargs) (inst, errors, s) fs))) \<subseteq>
           snd ` set errors \<union> {ValidationError ''field is required''}"
  using assms
proof (induction fs arbitrary: inst errors s)
  case Nil
  show ?case by auto
next
  case (Cons x fs)
  obtain k f where x: "x = (k, f)" by (cases x)
  from Cons.prems have
    ok1: "\<And>v. supplied synonyms kwargs k = Some v \<Longrightarrow> \<not> isl (from_data f v)" and
    ok2: "\<And>g s. supplied synonyms kwargs k = None \<Longrightarrow> default_of f = Some g \<Longrightarrow>
                 \<not> isl (from_data f (fst (g s)))"
    by (auto simp: x)
  from Cons.prems have rest:
    "\<forall>(field_name, f) \<in> set fs.
       \<forall>v. supplied synonyms kwargs field_name = Some v \<longrightarrow> \<not> isl (from_data f v)"
    "\<forall>(field_name, f) \<in> set fs.
       \<forall>g s. supplied synonyms kwargs field_name = None \<and> default_of f = Some g \<longrightarrow>
             \<not> isl (from_data f (fst (g s)))"
    by simp_all
  note IH = Cons.IH [OF rest]
  show ?case
  proof (cases "supplied synonyms kwargs k")
    case (Some v)
    with ok1 [OF Some] obtain w where "from_data f v = Inr w"
      by (cases "from_data f v") auto
    with Some show ?thesis
      using IH [of "AList.update k w inst" errors s]
      by (simp add: x init_field_unfold)
  next
    case None
    show ?thesis
    proof (cases "default_of f")
      case dn: None
      show ?thesis
      proof (cases "required f")
        case True
        have "snd ` set (AList.update k (ValidationError ''field is required'') errors) \<subseteq>
                snd ` set errors \<union> {ValidationError ''field is required''}"
          using set_update_subset [of k "ValidationError ''field is required''" errors]
          by auto
        with IH [of inst "AList.update k (ValidationError ''field is required'') errors" s]
        show ?thesis
          using None dn True by (auto simp: x init_field_unfold)
      next
        case False
        with None dn IH [of inst errors s] show ?thesis
          by (simp add: x init_field_unfold)
      qed
    next
      case (Some g)
      with ok2 [OF None Some, of s] obtain w where "from_data f (fst (g s)) = Inr w"
        by (cases "from_data f (fst (g s))") auto
      with None Some show ?thesis
        using IH [of "AList.update k w inst" errors "snd (g s)"]
        by (simp add: x init_field_unfold)
    qed
  qed
qed

text \<open>
  C1, as amended. Construction from keyword arguments (\<^verbatim>\<open>_empty\<close> false) goes through every
  field of the schema. When every value the input supplies, and every default used in the
  place of a missing one, passes the validation of its field, construction fails exactly
  when some required field has no value, and then with a single \<^verbatim>\<open>ValidationError\<close> whose
  dictionary has as its keys exactly the required fields without a value, each mapped
  to the error \<^verbatim>\<open>field is required\<close>; otherwise it returns the instance. \<^verbatim>\<open>from_data\<close> on
  an input with no key \<^verbatim>\<open>self\<close> and no key \<^verbatim>\<open>_empty\<close> is that construction.
\<close>

theorem init_reports_all_missing:
  assumes "\<forall>(field_name, f) \<in> set fs.
             \<forall>v. supplied synonyms kwargs field_name = Some v \<longrightarrow> \<not> isl (from_data f v)"
      and "\<forall>(field_name, f) \<in> set fs.
             \<forall>g s. supplied synonyms kwargs field_name = None \<and> default_of f = Some g \<longrightarrow>
                   \<not> isl (from_data f (fst (g s)))"
  shows "(omitted_required fs synonyms kwargs \<noteq> [] \<longrightarrow>
            (\<exists>errors. fst (BaseDocument_init fs synonyms False kwargs s) =
                         Inl (ValidationErrors errors) \<and>
                      fst ` set errors = set (omitted_required fs synonyms kwargs) \<and>
                      snd ` set errors = {ValidationError ''field is required''})) \<and>
         (omitted_required fs synonyms kwargs = [] \<longrightarrow>
            (\<exists>inst. fst (BaseDocument_init fs synonyms False kwargs s) = Inr inst)) \<and>
         (''self'' \<notin> fst ` set kwargs \<and> ''_empty'' \<notin> fst ` set kwargs \<longrightarrow>
            BaseDocument_from_data truthy cls_nm fs synonyms kwargs s =
              BaseDocument_init fs synonyms False kwargs s)"
proof -
  obtain inst errors s' where
    loop: "foldl (init_field synonyms kwargs) ([], [], s) fs = (inst, errors, s')"
    by (cases "foldl (init_field synonyms kwargs) ([], [], s) fs") auto
  have keys: "fst ` set errors = set (omitted_required fs synonyms kwargs)"
    using init_loop_errors [OF assms, of "[]" "[]" s] by (simp add: loop)
  have vals: "snd ` set errors \<subseteq> {ValidationError ''field is required''}"
    using init_loop_required_only [OF assms, of "[]" "[]" s] by (simp add: loop)
  have init: "fst (BaseDocument_init fs synonyms False kwargs s) =
                (if errors \<noteq> [] then Inl (ValidationErrors errors) else Inr inst)"
    by (simp add: BaseDocument_init_def loop)
  show ?thesis
  proof (intro conjI impI)
    assume ne: "omitted_required fs synonyms kwargs \<noteq> []"
    with keys have "errors \<noteq> []" by auto
    moreover from this vals have "snd ` set errors = {ValidationError ''field is required''}"
      by (cases errors) auto
    ultimately show "\<exists>errors. fst (BaseDocument_init fs synonyms False kwargs s) =
                         Inl (ValidationErrors errors) \<and>
                      fst ` set errors = set (omitted_required fs synonyms kwargs) \<and>
                      snd ` set errors = {ValidationError ''field is required''}"
      using init keys by auto
  next
    assume "omitted_required fs synonyms kwargs = []"
    with keys have "errors = []" by simp
    with init show "\<exists>inst. fst (BaseDocument_init fs synonyms False kwargs s) = Inr inst"
      by simp
  next
    assume "''self'' \<notin> fst ` set kwargs \<and> ''_empty'' \<notin> fst ` set kwargs"
    then have "map_of kwargs ''self'' = None" and "map_of kwargs ''_empty'' = None"
      by (simp_all add: map_of_eq_None_iff)
    then show "BaseDocument_from_data truthy cls_nm fs synonyms kwargs s =
               BaseDocument_init fs synonyms False kwargs s"
      by (simp add: BaseDocument_from_data_def)
  qed
qed

theorem init_reports_all_missing_witness:
  "omitted_required person person_synonyms [(''nick'', 3)] = [''name'', ''email''] \<and>
   (\<exists>errors. fst (BaseDocument_init person person_synonyms False [(''nick'', 3)] 0) =
                Inl (ValidationErrors errors) \<and>
             fst ` set errors = {''name'', ''email''}) \<and>
   omitted_required person person_synonyms [(''full_name'', 7), (''email'', 1)] = [] \<and>
   (\<exists>inst. fst (BaseDocument_init person person_synonyms False
                  [(''full_name'', 7), (''email'', 1)] 0) = Inr inst) \<and>
   BaseDocument_from_data int_truthy ''Person'' person person_synonyms [(''nick'', 3)] 0 =
     BaseDocument_init person person_synonyms False [(''nick'', 3)] 0"
proof -
  have v1: "\<forall>(field_name, f) \<in> set person.
              \<forall>v. supplied person_synonyms kw field_name = Some v \<longrightarrow> \<not> isl (from_data f v)"
    for kw :: "(string \<times> int) list"
    by (simp add: person_def plain_field_def)
  have v2: "\<forall>(field_name, f) \<in> set person.
              \<forall>g s. supplied person_synonyms kw field_name = None \<and> default_of f = Some g \<longrightarrow>
                    \<not> isl (from_data f (fst (g s)))"
    for kw :: "(string \<times> int) list"
    by (simp add: person_def plain_field_def)
  have o1: "omitted_required person person_synonyms [(''nick'', 3)] = [''name'', ''email'']"
    by (simp add: omitted_required_def person_def person_synonyms_def supplied_def plain_field_def)
  have o2: "omitted_required person person_synonyms [(''full_name'', 7), (''email'', 1)] = []"
    by (simp add: omitted_required_def person_def person_synonyms_def supplied_def plain_field_def)
  note main = init_reports_all_missing [OF v1 v2]
  from main [of "[(''nick'', 3)]" 0 int_truthy "''Person''"] o1
  have 1: "\<exists>errors. fst (BaseDocument_init person person_synonyms False [(''nick'', 3)] 0) =
                Inl (ValidationErrors errors) \<and>
             fst ` set errors = {''name'', ''email''}"
    by auto
  from main [of "[(''full_name'', 7), (''email'', 1)]" 0 int_truthy "''Person''"] o2
  have 2: "\<exists>inst. fst (BaseDocument_init person person_synonyms False
                  [(''full_name'', 7), (''email'', 1)] 0) = Inr inst"
    by simp
  from main [of "[(''nick'', 3)]" 0 int_truthy "''Person''"]
  have 3: "BaseDocument_from_data int_truthy ''Person'' person person_synonyms
             [(''nick'', 3)] 0 =
           BaseDocument_init person person_synonyms False [(''nick'', 3)] 0"
    by simp
  from o1 o2 1 2 3 show ?thesis by blast
qed

text \<open>
  C1 as stated fails in two ways. In the schema \<open>rejected_default\<close> the only required
  field without a value is \<open>b\<close>, and no value is supplied at all, yet the error has the
  two keys \<open>b\<close> and \<open>c\<close>: the field \<open>c\<close> rejects its own default. And on the raw input
  that binds \<^verbatim>\<open>_empty\<close> to 1, the required fields \<open>name\<close> and \<open>email\<close> of \<open>person\<close> have no
  value, yet \<^verbatim>\<open>from_data\<close> returns an instance: no field is checked.
\<close>

theorem init_reports_all_missing_counterexample:
  "omitted_required rejected_default [] [] = [''b''] \<and>
   fst (BaseDocument_init rejected_default [] False [] 0) =
     Inl (ValidationErrors [(''b'', ValidationError ''field is required''),
                            (''c'', ValidationError ''value is negative'')]) \<and>
   omitted_required person person_synonyms [(''_empty'', 1)] = [''name'', ''email''] \<and>
   fst (BaseDocument_from_data int_truthy ''Person'' person person_synonyms
          [(''_empty'', 1)] 0) = Inr []"
proof (intro conjI)
  show "omitted_required rejected_default [] [] = [''b'']"
    by (simp add: omitted_required_def rejected_default_def supplied_def plain_field_def)
  show "fst (BaseDocument_init rejected_default [] False [] 0) =
     Inl (ValidationErrors [(''b'', ValidationError ''field is required''),
                            (''c'', ValidationError ''value is negative'')])"
    by (simp add: BaseDocument_init_def rejected_default_def init_field_unfold supplied_def
          plain_field_def)
  show "omitted_required person person_synonyms [(''_empty'', 1)] = [''name'', ''email'']"
    by (simp add: omitted_required_def person_def person_synonyms_def supplied_def plain_field_def)
  show "fst (BaseDocument_from_data int_truthy ''Person'' person person_synonyms
          [(''_empty'', 1)] 0) = Inr []"
    by (simp add: BaseDocument_from_data_def BaseDocument_init_def int_truthy_def)
qed

lemma init_field_cases:
  obtains (store) w s' where
      "init_field synonyms kwargs (inst, errors, s) (k, f) = (AList.update k w inst, errors, s')"
    | (error) e s' where
      "init_field synonyms kwargs (inst, errors, s) (k, f) = (inst, AList.update k e errors, s')"
    | (skip) s' where
      "init_field synonyms kwargs (inst, errors, s) (k, f) = (inst, errors, s')"
  by (cases "supplied synonyms kwargs k"; cases "default_of f"; cases "required f";
      cases "from_data f (the (supplied synonyms kwargs k))";
      cases "from_data f (fst (the (default_of f) s))")
     (auto simp: init_field_unfold)

lemma init_loop_mono:
  "fst ` set errors \<subseteq>
     fst ` set (fst (snd (foldl (init_field synonyms kwargs) (inst, errors, s) fs)))"
proof (induction fs arbitrary: inst errors s)
  case Nil
  show ?case by simp
next
  case (Cons x fs)
  obtain k f where x: "x = (k, f)" by (cases x)
  show ?case
  proof (cases rule: init_field_cases [of synonyms kwargs inst errors s k f])
    case (store w s')
    with Cons.IH [where inst = "AList.update k w inst" and errors = "errors" and s = "s'"] show ?thesis
      by (simp add: x)
  next
    case (error e s')
    with Cons.IH [where inst = "inst" and errors = "AList.update k e errors" and s = "s'"] show ?thesis
      by (auto simp: x dom_update)
  next
    case (skip s')
    with Cons.IH [where inst = "inst" and errors = "errors" and s = "s'"] show ?thesis
      by (simp add: x)
  qed
qed

lemma init_loop_untouched:
  "k \<notin> fst ` set fs \<Longrightarrow>
   map_of (fst (foldl (init_field synonyms kwargs) (inst, errors, s) fs)) k = map_of inst k"
proof (induction fs arbitrary: inst errors s)
  case Nil
  show ?case by simp
next
  case (Cons x fs)
  obtain k' f where x: "x = (k', f)" by (cases x)
  from Cons.prems have ne: "k' \<noteq> k" and notin: "k \<notin> fst ` set fs"
    by (auto simp: x)
  show ?case
  proof (cases rule: init_field_cases [of synonyms kwargs inst errors s k' f])
    case (store w s')
    with Cons.IH [OF notin, where inst = "AList.update k' w inst" and errors = "errors" and s = "s'"] ne show ?thesis
      by (simp add: x update_conv')
  next
    case (error e s')
    with Cons.IH [OF notin, where inst = "inst" and errors = "AList.update k' e errors" and s = "s'"] show ?thesis
      by (simp add: x)
  next
    case (skip s')
    with Cons.IH [OF notin, where inst = "inst" and errors = "errors" and s = "s'"] show ?thesis
      by (simp add: x)
  qed
qed


lemma init_loop_value:
  assumes "distinct (map fst fs)" and "(k, f) \<in> set fs"
      and "k \<notin> fst ` set (fst (snd (foldl (init_field synonyms kwargs) (inst, errors, s) fs)))"
  shows "case supplied synonyms kwargs k of
           Some v \<Rightarrow>
             \<exists>w. from_data f v = Inr w \<and>
                 map_of (fst (foldl (init_field synonyms kwargs) (inst, errors, s) fs)) k = Some w
         | None \<Rightarrow>
             (case default_of f of
                None \<Rightarrow>
                  map_of (fst (foldl (init_field synonyms kwargs) (inst, errors, s) fs)) k =
                    map_of inst k
              | Some g \<Rightarrow>
                  \<exists>s1 w. from_data f (fst (g s1)) = Inr w \<and>
                    map_of (fst (foldl (init_field synonyms kwargs) (inst, errors, s) fs)) k =
                      Some w)"
  using assms
proof (induction fs arbitrary: inst errors s)
  case Nil
  then show ?case by simp
next
  case (Cons x fs)
  obtain k' f' where x: "x = (k', f')" by (cases x)
  obtain i1 e1 s1 where st: "init_field synonyms kwargs (inst, errors, s) (k', f') = (i1, e1, s1)"
    by (cases "init_field synonyms kwargs (inst, errors, s) (k', f')") auto
  let ?final = "foldl (init_field synonyms kwargs) (i1, e1, s1) fs"
  have fin: "foldl (init_field synonyms kwargs) (inst, errors, s) (x # fs) = ?final"
    by (simp add: x st)
  have noerr: "k \<notin> fst ` set (fst (snd ?final))"
    using Cons.prems(3) unfolding fin .
  from Cons.prems(1) have dist: "distinct (map fst fs)" and k'_new: "k' \<notin> fst ` set fs"
    by (auto simp: x)
  show ?case
  proof (cases "(k, f) = (k', f')")
    case True
    then have kk: "k' = k" and ff: "f' = f" by simp_all
    from k'_new kk have "map_of (fst ?final) k = map_of i1 k"
      using init_loop_untouched [of k fs synonyms kwargs i1 e1 s1] by simp
    moreover from noerr have "k \<notin> fst ` set e1"
      using init_loop_mono [of e1 synonyms kwargs i1 s1 fs] by auto
    ultimately show ?thesis
      using st unfolding fin kk ff
      by (auto simp: init_field_unfold update_conv' dom_update
               split: option.splits sum.splits if_splits)
  next
    case False
    with Cons.prems(2) have in_fs: "(k, f) \<in> set fs"
      by (auto simp: x)
    with k'_new have ne: "k' \<noteq> k" by force
    have i1: "map_of i1 k = map_of inst k"
      using st ne
      by (cases rule: init_field_cases [of synonyms kwargs inst errors s k' f'])
         (auto simp: update_conv')
    from Cons.IH [OF dist in_fs noerr] show ?thesis
      unfolding fin by (auto simp: i1 split: option.splits)
  qed
qed

text \<open>
  C6. In a construction that succeeds, the value of a field is found by precedence: the
  value under the field's name in the input; if there is none, the value under the
  field's synonym; if there is none either, the field's default, read from the state of
  the factories at that point. The value found goes through the field's validation and
  its normalised form is what the instance holds under the field's name; a field with
  no value and no default is left unset.
\<close>

theorem init_value_precedence:
  assumes "distinct (map fst fs)" and "(field_name, f) \<in> set fs"
      and "BaseDocument_init fs synonyms False kwargs s = (Inr inst, s')"
  shows "(\<forall>v. map_of kwargs field_name = Some v \<longrightarrow>
            (\<exists>w. from_data f v = Inr w \<and> map_of inst field_name = Some w)) \<and>
         (\<forall>synonym v. map_of kwargs field_name = None \<and>
            map_of synonyms field_name = Some synonym \<and> map_of kwargs synonym = Some v \<longrightarrow>
            (\<exists>w. from_data f v = Inr w \<and> map_of inst field_name = Some w)) \<and>
         (supplied synonyms kwargs field_name = None \<longrightarrow>
            (case default_of f of
               None \<Rightarrow> map_of inst field_name = None
             | Some g \<Rightarrow>
                 \<exists>s1 w. from_data f (fst (g s1)) = Inr w \<and> map_of inst field_name = Some w))"
proof -
  obtain i e s2 where loop: "foldl (init_field synonyms kwargs) ([], [], s) fs = (i, e, s2)"
    by (cases "foldl (init_field synonyms kwargs) ([], [], s) fs") auto
  from assms(3) have e: "e = []" and i: "i = inst"
    by (auto simp: BaseDocument_init_def loop split: if_splits)
  have noerr: "field_name \<notin> fst ` set (fst (snd (foldl (init_field synonyms kwargs) ([], [], s) fs)))"
    by (simp add: loop e)
  note main = init_loop_value [OF assms(1,2) noerr]
  show ?thesis
  proof (intro conjI allI impI)
    fix v
    assume "map_of kwargs field_name = Some v"
    then have "supplied synonyms kwargs field_name = Some v"
      by (simp add: supplied_def)
    with main show "\<exists>w. from_data f v = Inr w \<and> map_of inst field_name = Some w"
      by (simp add: loop i)
  next
    fix synonym v
    assume "map_of kwargs field_name = None \<and>
            map_of synonyms field_name = Some synonym \<and> map_of kwargs synonym = Some v"
    then have "supplied synonyms kwargs field_name = Some v"
      by (simp add: supplied_def)
    with main show "\<exists>w. from_data f v = Inr w \<and> map_of inst field_name = Some w"
      by (simp add: loop i)
  next
    assume "supplied synonyms kwargs field_name = None"
    with main show "case default_of f of
               None \<Rightarrow> map_of inst field_name = None
             | Some g \<Rightarrow>
                 \<exists>s1 w. from_data f (fst (g s1)) = Inr w \<and> map_of inst field_name = Some w"
      by (simp add: loop i split: option.splits)
  qed
qed

lemma init_measurement:
  "BaseDocument_init measurement measurement_synonyms False [(''val'', 5)] 0 =
     (Inr [(''value'', 5), (''unit'', 1)], 0)"
  by (simp add: BaseDocument_init_def measurement_def measurement_synonyms_def
        init_field_unfold supplied_def plain_field_def)

theorem init_value_precedence_witness:
  "distinct (map fst measurement) \<and>
   BaseDocument_init measurement measurement_synonyms False [(''val'', 5)] 0 =
     (Inr [(''value'', 5), (''unit'', 1)], 0) \<and>
   map_of [(''value'', 5), (''unit'', 1::int)] ''value'' = Some 5"
proof -
  have d: "distinct (map fst measurement)"
    by (simp add: measurement_def)
  have m: "(''value'', (plain_field ''value'' True None)\<lparr>name := ''value''\<rparr>) \<in> set measurement"
    by (simp add: measurement_def)
  from init_value_precedence [OF d m init_measurement]
  have "\<exists>w. from_data ((plain_field ''value'' True None)\<lparr>name := ''value''\<rparr>) 5 = Inr w \<and>
            map_of [(''value'', 5), (''unit'', 1::int)] ''value'' = Some w"
    by (simp add: measurement_synonyms_def)
  then have "map_of [(''value'', 5), (''unit'', 1::int)] ''value'' = Some 5"
    by (simp add: plain_field_def)
  with d init_measurement show ?thesis by simp
qed











lemma init_person:
  "BaseDocument_init person person_synonyms False [(''full_name'', 7), (''email'', 1)] 0 =
     (Inr [(''name'', 7), (''email'', 1), (''age'', 0)], 0)"
  by (simp add: BaseDocument_init_def person_def person_synonyms_def
        init_field_unfold supplied_def plain_field_def)




subsection \<open>The identifier field\<close>













section \<open>Round trip\<close>

lemma schema_part_Nil: "schema_part [] inst = []"
  by (simp add: schema_part_def)

lemma schema_part_Cons:
  "schema_part ((k, f) # fs) inst =
     (case map_of inst k of None \<Rightarrow> [] | Some v \<Rightarrow> [(k, v)]) @ schema_part fs inst"
  by (simp add: schema_part_def)

lemma init_loop_ordered:
  "distinct (map fst inst @ map fst fs) \<Longrightarrow>
   fst (foldl (init_field synonyms kwargs) (inst, errors, s) fs) =
     inst @ schema_part fs (fst (foldl (init_field synonyms kwargs) (inst, errors, s) fs))"
proof (induction fs arbitrary: inst errors s)
  case Nil
  show ?case by (simp add: schema_part_Nil)
next
  case (Cons x fs)
  obtain k f where x: "x = (k, f)" by (cases x)
  from Cons.prems have k_inst: "k \<notin> fst ` set inst" and k_fs: "k \<notin> fst ` set fs"
    and dist: "distinct (map fst inst @ map fst fs)"
    by (auto simp: x)
  from k_inst have none: "map_of inst k = None"
    by (simp add: map_of_eq_None_iff)
  show ?case
  proof (cases rule: init_field_cases [of synonyms kwargs inst errors s k f])
    case (store w s')
    let ?F = "foldl (init_field synonyms kwargs) (inst @ [(k, w)], errors, s') fs"
    have upd: "AList.update k w inst = inst @ [(k, w)]"
      using none by (rule update_absent)
    have fin: "foldl (init_field synonyms kwargs) (inst, errors, s) (x # fs) = ?F"
      by (simp add: x store upd)
    from dist k_inst k_fs have "distinct (map fst (inst @ [(k, w)]) @ map fst fs)"
      by auto
    from Cons.IH [OF this, of errors s']
    have F: "fst ?F = (inst @ [(k, w)]) @ schema_part fs (fst ?F)" .
    have "map_of (fst ?F) k = map_of (inst @ [(k, w)]) k"
      using k_fs by (rule init_loop_untouched)
    with none have "map_of (fst ?F) k = Some w"
      by (simp add: map_add_def)
    then have "schema_part ((k, f) # fs) (fst ?F) = (k, w) # schema_part fs (fst ?F)"
      by (simp add: schema_part_Cons)
    with F have "fst ?F = inst @ schema_part (x # fs) (fst ?F)"
      by (simp add: x)
    then show ?thesis
      by (simp only: fin)
  next
    case (error e s')
    let ?F = "foldl (init_field synonyms kwargs) (inst, AList.update k e errors, s') fs"
    have fin: "foldl (init_field synonyms kwargs) (inst, errors, s) (x # fs) = ?F"
      by (simp add: x error)
    from Cons.IH [OF dist, of "AList.update k e errors" s']
    have F: "fst ?F = inst @ schema_part fs (fst ?F)" .
    have "map_of (fst ?F) k = map_of inst k"
      using k_fs by (rule init_loop_untouched)
    with none have "schema_part ((k, f) # fs) (fst ?F) = schema_part fs (fst ?F)"
      by (simp add: schema_part_Cons)
    with F have "fst ?F = inst @ schema_part (x # fs) (fst ?F)"
      by (simp add: x)
    then show ?thesis
      by (simp only: fin)
  next
    case (skip s')
    let ?F = "foldl (init_field synonyms kwargs) (inst, errors, s') fs"
    have fin: "foldl (init_field synonyms kwargs) (inst, errors, s) (x # fs) = ?F"
      by (simp add: x skip)
    from Cons.IH [OF dist, of errors s']
    have F: "fst ?F = inst @ schema_part fs (fst ?F)" .
    have "map_of (fst ?F) k = map_of inst k"
      using k_fs by (rule init_loop_untouched)
    with none have "schema_part ((k, f) # fs) (fst ?F) = schema_part fs (fst ?F)"
      by (simp add: schema_part_Cons)
    with F have "fst ?F = inst @ schema_part (x # fs) (fst ?F)"
      by (simp add: x)
    then show ?thesis
      by (simp only: fin)
  qed
qed

lemma init_schema_part:
  assumes "distinct (map fst fs)"
      and "BaseDocument_init fs synonyms False kwargs s = (Inr inst, s')"
  shows "schema_part fs inst = inst"
proof -
  obtain i e s2 where loop: "foldl (init_field synonyms kwargs) ([], [], s) fs = (i, e, s2)"
    by (cases "foldl (init_field synonyms kwargs) ([], [], s) fs") auto
  from assms(2) have "i = inst"
    by (auto simp: BaseDocument_init_def loop split: if_splits)
  with init_loop_ordered [of "[]" fs synonyms kwargs "[]" s] assms(1) loop show ?thesis
    by simp
qed

lemma map_of_loaded_instance:
  "distinct (map fst fs) \<Longrightarrow> (k, f) \<in> set fs \<Longrightarrow>
   map_of (loaded_instance fs son) k = map_option (from_son f) (map_of son (mongo_name f))"
proof (induction fs)
  case Nil
  then show ?case by simp
next
  case (Cons x fs)
  obtain k' f' where x: "x = (k', f')" by (cases x)
  from Cons.prems(1) have k'_fs: "k' \<notin> fst ` set fs" and dist: "distinct (map fst fs)"
    by (auto simp: x)
  show ?case
  proof (cases "(k, f) = x")
    case True
    from k'_fs have "k' \<notin> fst ` set (loaded_instance fs son)"
      using loaded_instance_keys [of k' fs son] by auto
    then have "map_of (loaded_instance fs son) k' = None"
      by (simp add: map_of_eq_None_iff)
    with True show ?thesis
      by (cases "map_of son (mongo_name f')") (auto simp: x loaded_instance_Cons)
  next
    case False
    with Cons.prems have in_fs: "(k, f) \<in> set fs" by (auto simp: x)
    with k'_fs have "k \<noteq> k'" by force
    with Cons.IH [OF dist in_fs] show ?thesis
      by (cases "map_of son (mongo_name f')") (auto simp: x loaded_instance_Cons)
  qed
qed

lemma loaded_instance_of_record:
  "(\<And>k f. (k, f) \<in> set fs \<Longrightarrow>
      map_of son (mongo_name f) = map_option (to_son f) (map_of inst k)) \<Longrightarrow>
   (\<And>k f v. (k, f) \<in> set fs \<Longrightarrow> map_of inst k = Some v \<Longrightarrow> from_son f (to_son f v) = v) \<Longrightarrow>
   loaded_instance fs son = schema_part fs inst"
proof (induction fs)
  case Nil
  show ?case by (simp add: loaded_instance_Nil schema_part_Nil)
next
  case (Cons x fs)
  obtain k f where x: "x = (k, f)" by (cases x)
  have rest: "loaded_instance fs son = schema_part fs inst"
  proof (rule Cons.IH)
    fix k' f'
    assume "(k', f') \<in> set fs"
    then show "map_of son (mongo_name f') = map_option (to_son f') (map_of inst k')"
      using Cons.prems(1) [of k' f'] by simp
  next
    fix k' f' v
    assume "(k', f') \<in> set fs" and "map_of inst k' = Some v"
    then show "from_son f' (to_son f' v) = v"
      using Cons.prems(2) [of k' f' v] by simp
  qed
  have son: "map_of son (mongo_name f) = map_option (to_son f) (map_of inst k)"
    using Cons.prems(1) [of k f] by (simp add: x)
  show ?case
  proof (cases "map_of inst k")
    case None
    with son rest show ?thesis
      by (simp add: x loaded_instance_Cons schema_part_Cons)
  next
    case (Some v)
    then have "from_son f (to_son f v) = v"
      using Cons.prems(2) [of k f v] by (simp add: x)
    with Some son rest show ?thesis
      by (simp add: x loaded_instance_Cons schema_part_Cons)
  qed
qed

text \<open>
  C2, as amended. For a schema whose wire names are pairwise distinct and an instance
  that validated construction has produced: after serialising and loading back through
  the trusted path, each field holds the value it held, converted to the wire and back,
  and is unset if it was unset; so a field whose conversion from the wire inverts its
  conversion to the wire has its value back, and when that is so for every field that
  has a value the instance loaded is the instance serialised.
\<close>

theorem round_trip:
  assumes "distinct (map fst fs)"
      and "distinct (map (\<lambda>(field_name, f). mongo_name f) fs)"
      and "BaseDocument_init fs synonyms False kwargs s = (Inr inst, s')"
  shows "(\<forall>(field_name, f) \<in> set fs.
            map_of (BaseDocument_from_son fs (BaseDocument_to_son fs inst)) field_name =
              map_option (\<lambda>v. from_son f (to_son f v)) (map_of inst field_name)) \<and>
         ((\<forall>(field_name, f) \<in> set fs.
             \<forall>v. map_of inst field_name = Some v \<longrightarrow> from_son f (to_son f v) = v) \<longrightarrow>
          BaseDocument_from_son fs (BaseDocument_to_son fs inst) = inst)"
proof (intro conjI impI)
  have codec: "BaseDocument_from_son fs (BaseDocument_to_son fs inst) =
                 loaded_instance fs (wire_record fs inst)"
    using assms(1,2) by (simp add: to_son_wire_record from_son_loaded_instance)
  show "\<forall>(field_name, f) \<in> set fs.
            map_of (BaseDocument_from_son fs (BaseDocument_to_son fs inst)) field_name =
              map_option (\<lambda>v. from_son f (to_son f v)) (map_of inst field_name)"
  proof (clarify)
    fix k f
    assume kf: "(k, f) \<in> set fs"
    show "map_of (BaseDocument_from_son fs (BaseDocument_to_son fs inst)) k =
            map_option (\<lambda>v. from_son f (to_son f v)) (map_of inst k)"
      by (simp add: codec map_of_loaded_instance [OF assms(1) kf]
            map_of_wire_record [OF assms(2) kf] option.map_comp comp_def)
  qed
  assume exact: "\<forall>(field_name, f) \<in> set fs.
             \<forall>v. map_of inst field_name = Some v \<longrightarrow> from_son f (to_son f v) = v"
  have "loaded_instance fs (wire_record fs inst) = schema_part fs inst"
  proof (rule loaded_instance_of_record)
    fix k f
    assume "(k, f) \<in> set fs"
    then show "map_of (wire_record fs inst) (mongo_name f) = map_option (to_son f) (map_of inst k)"
      by (rule map_of_wire_record [OF assms(2)])
  next
    fix k f v
    assume "(k, f) \<in> set fs" and "map_of inst k = Some v"
    with exact show "from_son f (to_son f v) = v" by auto
  qed
  with codec init_schema_part [OF assms(1,3)]
  show "BaseDocument_from_son fs (BaseDocument_to_son fs inst) = inst"
    by simp
qed

theorem round_trip_witness:
  "distinct (map fst person) \<and>
   distinct (map (\<lambda>(field_name, f). mongo_name f) person) \<and>
   BaseDocument_init person person_synonyms False [(''full_name'', 7), (''email'', 1)] 0 =
     (Inr [(''name'', 7), (''email'', 1), (''age'', 0)], 0) \<and>
   BaseDocument_from_son person
     (BaseDocument_to_son person [(''name'', 7), (''email'', 1), (''age'', 0)]) =
     [(''name'', 7), (''email'', 1), (''age'', 0)]"
proof -
  have d1: "distinct (map fst person)"
    by (simp add: person_def)
  have d2: "distinct (map (\<lambda>(field_name, f). mongo_name f) person)"
    by (simp add: person_def plain_field_def)
  have exact: "\<forall>(field_name, f) \<in> set person.
     \<forall>v. map_of [(''name'', 7), (''email'', 1), (''age'', 0::int)] field_name = Some v \<longrightarrow>
         from_son f (to_son f v) = v"
    by (simp add: person_def plain_field_def)
  from round_trip [OF d1 d2 init_person, THEN conjunct2, THEN mp, OF exact] d1 d2 init_person
  show ?thesis by simp
qed

text \<open>
  C2 as stated fails when two fields share a wire name, even though each converts to the
  wire and back exactly: construction gives \<open>a = 1\<close> and \<open>b = 2\<close>, the record holds one
  entry, and loading gives \<open>a = 2\<close>.
\<close>

theorem round_trip_counterexample:
  "BaseDocument_init shared_wire_name [] False [(''a'', 1), (''b'', 2)] 0 =
     (Inr [(''a'', 1), (''b'', 2)], 0) \<and>
   BaseDocument_from_son shared_wire_name
     (BaseDocument_to_son shared_wire_name [(''a'', 1), (''b'', 2)]) =
     [(''a'', 2), (''b'', 2)]"
  by (simp add: BaseDocument_init_def BaseDocument_from_son_def BaseDocument_set_son_def
        BaseDocument_to_son_def init_field_unfold supplied_def getitem_def
        shared_wire_name_def plain_field_def)

end
